theory Spec2Isabelle
  imports Complex_Main
begin

section \<open>Conventions of the embedding\<close>

text \<open>
  The server is C++. A \<^verbatim>\<open>float\<close> or \<^verbatim>\<open>double\<close> value is modelled as the real number
  it stands for (no NaN, no infinity), a \<^verbatim>\<open>std::vector<float>\<close> as a list of reals. In the
  voice activity detector, where a rounding decides whether a segment is kept or split,
  the arithmetic is the code's: every conversion to \<^verbatim>\<open>float\<close>, product and quotient is
  rounded to the nearest binary32 value by \<open>float32\<close> below (single precision throughout,
  as compilers for x86-64 and AArch64 evaluate it). In the session the \<^verbatim>\<open>float\<close> and
  \<^verbatim>\<open>double\<close> expressions fill messages and metric calls or select a branch; they are kept
  exact there. The 64-bit counters (\<^verbatim>\<open>int64_t\<close>,
  \<^verbatim>\<open>size_t\<close> accumulators) are unbounded integers: a counter only wraps after \<open>2^63\<close>
  samples. The two conversions the windowing code relies on are written out with their
  wrap-around: \<^verbatim>\<open>static_cast<size_t>(int)\<close> and \<^verbatim>\<open>static_cast<int>(size_t)\<close>.
  A thrown C++ exception is the \<open>Inl\<close> branch of a sum; where the object that threw
  lives on (a member function), the branch also carries the object as the throw left it.
  A call that does not return is the value \<open>None\<close>. Readings of the steady clock and the
  values computed from them (time stamps, elapsed seconds) are left out of the state;
  logging calls are left out as well.
\<close>

type_synonym sample = real

datatype audio_fault =
    EmptyAudioData
  | InvalidFormat
  | NotMono nat
  | NoAudioFrames
  | TooLong nat
  | ReadFailed
  | ResamplingFailed int
  | CreateResamplerFailed int
  | FlushFailed int

datatype exn =
    InvalidArgument
  | AudioError audio_fault

definition size_t_of_int :: "int \<Rightarrow> nat" where
  "size_t_of_int i = nat (i mod 2 ^ 64)"

definition int_of_size_t :: "nat \<Rightarrow> int" where
  "int_of_size_t n = (int n + 2 ^ 31) mod 2 ^ 32 - 2 ^ 31"

definition int64_of_real :: "real \<Rightarrow> int" where
  "int64_of_real x = (if 0 \<le> x then \<lfloor>x\<rfloor> else \<lceil>x\<rceil>)"

text \<open>
  IEEE 754 binary32, round to nearest, ties to even: 24 significant bits, exponents from
  \<open>-126\<close> (below which the spacing of the subnormal numbers stays at \<open>2^-149\<close>) to 127.
  \<open>f32_exponent_scan\<close> looks for the largest exponent \<open>e\<close> in that range with
  \<open>2^e\<close> at most the magnitude. A magnitude beyond the largest finite \<^verbatim>\<open>float\<close>, which the
  hardware turns into an infinity, is outside the model.
\<close>

definition pow2 :: "int \<Rightarrow> real" where
  "pow2 i = (if 0 \<le> i then 2 ^ nat i else 1 / 2 ^ nat (- i))"

fun f32_exponent_scan :: "nat \<Rightarrow> real \<Rightarrow> int" where
  "f32_exponent_scan 0 a = - 126"
| "f32_exponent_scan (Suc n) a =
     (if pow2 (int (Suc n) - 126) \<le> a then int (Suc n) - 126 else f32_exponent_scan n a)"

definition round_half_even :: "real \<Rightarrow> int" where
  "round_half_even q =
     (let f = \<lfloor>q\<rfloor>; d = q - real_of_int f
      in if d < 1 / 2 then f else if 1 / 2 < d then f + 1 else if even f then f else f + 1)"

definition float32 :: "real \<Rightarrow> real" where
  "float32 x =
     (let ulp = pow2 (f32_exponent_scan 253 \<bar>x\<bar> - 23)
      in real_of_int (round_half_even (x / ulp)) * ulp)"

section \<open>Voice activity detector (vad.h, vad.cpp)\<close>

text \<open>
  \<^verbatim>\<open>VadConfig\<close>; the model path is only handed to the inference runtime and is left out.
  The field \<^verbatim>\<open>sample_rate\<close> is called \<open>vc_sample_rate\<close> here, since \<^verbatim>\<open>Config\<close> has a field
  of the same name.
\<close>

record vad_config =
  threshold :: real
  min_silence_duration :: real
  min_speech_duration :: real
  max_speech_duration :: real
  vc_sample_rate :: int
  window_size :: int
  context_size :: int

text \<open>
  The neural network behind \<^verbatim>\<open>session_.Run\<close> is a parameter of the model: from the input
  buffer, the recurrent state and the sample rate it gives the speech probability and the
  next recurrent state. Loading the network and a run of it that fails inside the inference
  runtime are not modelled.
\<close>

type_synonym vad_model = "sample list \<Rightarrow> sample list \<Rightarrow> int \<Rightarrow> real \<times> sample list"

text \<open>The data members of \<^verbatim>\<open>VoiceActivityDetector\<close> (trailing underscores dropped).\<close>

record vad =
  vad_cfg :: vad_config
  state :: "sample list"
  context_buf :: "sample list"
  in_speech :: bool
  silence_samples :: int
  speech_start_samples :: int
  speech_buf :: "sample list"
  segments :: "sample list list"

definition kStateSize :: nat where
  "kStateSize = 2 * 1 * 128"

definition vad_new :: "vad_config \<Rightarrow> exn + vad" where
  "vad_new c =
     (if window_size c \<le> 0 then Inl InvalidArgument
      else if context_size c < 0 \<or> context_size c \<ge> window_size c then Inl InvalidArgument
      else if vc_sample_rate c \<le> 0 then Inl InvalidArgument
      else if threshold c \<le> 0 \<or> threshold c \<ge> 1 then Inl InvalidArgument
      else Inr \<lparr>vad_cfg = c,
                state = replicate kStateSize 0,
                context_buf = replicate (nat (context_size c)) 0,
                in_speech = False,
                silence_samples = 0,
                speech_start_samples = 0,
                speech_buf = [],
                segments = []\<rparr>)"

definition infer :: "vad_model \<Rightarrow> vad \<Rightarrow> sample list \<Rightarrow> (exn \<times> vad) + (real \<times> vad)" where
  "infer net v samples =
     (let c = vad_cfg v in
      if int_of_size_t (length samples) \<noteq> window_size c then Inl (InvalidArgument, v)
      else
        let input_buf = take (nat (context_size c)) (context_buf v) @ take (nat (window_size c)) samples;
            outputs = net input_buf (state v) (vc_sample_rate c);
            prob = fst outputs;
            new_state = take kStateSize (snd outputs)
        in Inr (prob,
                v\<lparr>state := new_state,
                  context_buf := take (nat (context_size c))
                               (drop (nat (window_size c - context_size c)) samples)\<rparr>))"

definition finalize_segment :: "vad \<Rightarrow> vad" where
  "finalize_segment v =
     (if speech_buf v = [] then
        v\<lparr>in_speech := False, silence_samples := 0, speech_start_samples := 0\<rparr>
      else
        let duration = float32 (float32 (real (length (speech_buf v))) /
                                float32 (real_of_int (vc_sample_rate (vad_cfg v)))) in
        if duration < min_speech_duration (vad_cfg v) then
          v\<lparr>in_speech := False, silence_samples := 0, speech_start_samples := 0, speech_buf := []\<rparr>
        else
          v\<lparr>segments := segments v @ [speech_buf v],
            in_speech := False, silence_samples := 0, speech_start_samples := 0,
            speech_buf := []\<rparr>)"

definition max_speech_samples :: "vad_config \<Rightarrow> int" where
  "max_speech_samples c =
     int64_of_real (float32 (max_speech_duration c * float32 (real_of_int (vc_sample_rate c))))"

definition min_silence_samples :: "vad_config \<Rightarrow> int" where
  "min_silence_samples c =
     int64_of_real (float32 (min_silence_duration c * float32 (real_of_int (vc_sample_rate c))))"

definition accept_waveform :: "vad_model \<Rightarrow> vad \<Rightarrow> sample list \<Rightarrow> (exn \<times> vad) + vad" where
  "accept_waveform net v samples =
     (let c = vad_cfg v in
      if int_of_size_t (length samples) \<noteq> window_size c then Inl (InvalidArgument, v)
      else
        case infer net v samples of
          Inl e \<Rightarrow> Inl e
        | Inr (prob, v1) \<Rightarrow>
            let window_samples = window_size c in
            if prob \<ge> threshold c then
              let v2 = (if \<not> in_speech v1
                        then v1\<lparr>in_speech := True, speech_start_samples := 0, speech_buf := []\<rparr>
                        else v1);
                  v3 = v2\<lparr>silence_samples := 0,
                          speech_buf := speech_buf v2 @ samples,
                          speech_start_samples := speech_start_samples v2 + window_samples\<rparr>
              in Inr (if speech_start_samples v3 \<ge> max_speech_samples c
                      then finalize_segment v3 else v3)
            else if in_speech v1 then
              let v2 = v1\<lparr>silence_samples := silence_samples v1 + window_samples,
                          speech_buf := speech_buf v1 @ samples,
                          speech_start_samples := speech_start_samples v1 + window_samples\<rparr>
              in Inr (if silence_samples v2 \<ge> min_silence_samples c
                      then finalize_segment v2 else v2)
            else Inr v1)"

definition vad_empty :: "vad \<Rightarrow> bool" where
  "vad_empty v = (segments v = [])"

definition vad_front :: "vad \<Rightarrow> sample list" where
  "vad_front v = hd (segments v)"

definition vad_pop :: "vad \<Rightarrow> vad" where
  "vad_pop v = v\<lparr>segments := tl (segments v)\<rparr>"

definition is_speech :: "vad \<Rightarrow> bool" where
  "is_speech v = in_speech v"

definition flush :: "vad \<Rightarrow> vad" where
  "flush v = (if in_speech v \<and> speech_buf v \<noteq> [] then finalize_segment v else v)"

definition reset :: "vad \<Rightarrow> vad" where
  "reset v =
     v\<lparr>in_speech := False, silence_samples := 0, speech_start_samples := 0,
       speech_buf := [], segments := [],
       context_buf := replicate (nat (context_size (vad_cfg v))) 0,
       state := replicate kStateSize 0\<rparr>"

text \<open>
  Sequences of the two calls that can put a segment on the queue, made by a caller that
  catches the exception of a call and goes on with the detector as the throw left it.
\<close>

datatype vad_call = AcceptWaveform "sample list" | Flush

definition after_call :: "(exn \<times> vad) + vad \<Rightarrow> vad" where
  "after_call r = (case r of Inl (e, v) \<Rightarrow> v | Inr v \<Rightarrow> v)"

fun vad_run :: "vad_model \<Rightarrow> vad \<Rightarrow> vad_call list \<Rightarrow> vad" where
  "vad_run net v [] = v"
| "vad_run net v (AcceptWaveform w # calls) =
     vad_run net (after_call (accept_waveform net v w)) calls"
| "vad_run net v (Flush # calls) = vad_run net (flush v) calls"

section \<open>Audio utilities (audio.h, audio.cpp)\<close>

text \<open>\<^verbatim>\<open>std::lround\<close>: to the nearest integer, halfway cases away from zero.\<close>

definition lround :: "real \<Rightarrow> int" where
  "lround x = (if 0 \<le> x then \<lfloor>x + 1 / 2\<rfloor> else \<lceil>x - 1 / 2\<rceil>)"

text \<open>\<^verbatim>\<open>std::vector<float>::resize(n, 0.0f)\<close>; a failing allocation is not modelled.\<close>

definition resize :: "nat \<Rightarrow> sample list \<Rightarrow> sample list" where
  "resize n xs = take n xs @ replicate (n - length xs) 0"

definition compute_rms :: "sample list \<Rightarrow> real" where
  "compute_rms samples =
     (if samples = [] then 0
      else sqrt (fold (\<lambda>s sum. sum + s * s) samples 0 / real (length samples)))"

type_synonym byte = char

text \<open>
  What \<^verbatim>\<open>dr_wav\<close> reports for a buffer it accepts: the header fields the decoder reads and the
  frames \<^verbatim>\<open>drwav_read_pcm_frames_f32\<close> delivers. The parser itself and the one-shot converter
  \<^verbatim>\<open>src_simple\<close> are parameters of \<open>decode_wav\<close>.
\<close>

record drwav =
  channels :: nat
  sampleRate :: nat
  totalPCMFrameCount :: nat
  pcm_frames :: "sample list"

record audio_data =
  samples :: "sample list"
  duration_sec :: real

definition decode_wav ::
  "(byte list \<Rightarrow> drwav option) \<Rightarrow> (sample list \<Rightarrow> nat \<Rightarrow> real \<Rightarrow> int \<times> sample list) \<Rightarrow>
   byte list \<Rightarrow> int \<Rightarrow> exn + audio_data" where
  "decode_wav drwav_init_memory src_simple data target_rate =
     (if data = [] then Inl (AudioError EmptyAudioData)
      else
        case drwav_init_memory data of
          None \<Rightarrow> Inl (AudioError InvalidFormat)
        | Some wav \<Rightarrow>
            if channels wav \<noteq> 1 then Inl (AudioError (NotMono (channels wav)))
            else
              let total_frames = totalPCMFrameCount wav in
              if total_frames = 0 then Inl (AudioError NoAudioFrames)
              else if total_frames > 48000 * 3600 then Inl (AudioError (TooLong total_frames))
              else
                let read = take total_frames (pcm_frames wav);
                    frames_read = length read;
                    input_rate = int_of_size_t (sampleRate wav)
                in if frames_read = 0 then Inl (AudioError ReadFailed)
                   else if input_rate \<noteq> target_rate then
                     let ratio = real_of_int target_rate / real_of_int input_rate;
                         output_frames = size_t_of_int (lround (real (length read) * ratio));
                         res = src_simple read output_frames ratio
                     in if fst res \<noteq> 0 then Inl (AudioError (ResamplingFailed (fst res)))
                        else
                          let resampled = take output_frames (snd res)
                          in Inr \<lparr>samples = resampled,
                                  duration_sec = real (length resampled) / real_of_int target_rate\<rparr>
                   else
                     Inr \<lparr>samples = read,
                          duration_sec = real (length read) / real_of_int target_rate\<rparr>)"

text \<open>
  \<^verbatim>\<open>libsamplerate\<close> is a parameter: \<open>src_new\<close> gives a converter state or an error code,
  \<open>src_process\<close> maps the state, the input, the room in the output buffer, the ratio and the
  end-of-input flag to an error code, the next state, the frames generated and the number
  of input frames used.
\<close>

record 'k src_result =
  src_error :: int
  src_next :: 'k
  output_frames_gen :: "sample list"
  input_frames_used :: nat

record 'k samplerate =
  src_new :: "int + 'k"
  src_process :: "'k \<Rightarrow> sample list \<Rightarrow> nat \<Rightarrow> real \<Rightarrow> bool \<Rightarrow> 'k src_result"
  src_reset :: "'k \<Rightarrow> 'k"

record 'k stream_resampler =
  src_state :: 'k
  ratio :: real
  output_buf :: "sample list"

definition stream_resampler_new :: "'k samplerate \<Rightarrow> int \<Rightarrow> int \<Rightarrow> exn + 'k stream_resampler" where
  "stream_resampler_new lib input_rate output_rate =
     (case src_new lib of
        Inl error \<Rightarrow> Inl (AudioError (CreateResamplerFailed error))
      | Inr k \<Rightarrow>
          Inr \<lparr>src_state = k,
               ratio = real_of_int output_rate / real_of_int input_rate,
               output_buf = []\<rparr>)"

text \<open>The converter writes its frames over the front of the output buffer.\<close>

definition write_front :: "sample list \<Rightarrow> sample list \<Rightarrow> sample list" where
  "write_front gen buf = take (length buf) gen @ drop (length gen) buf"

definition needed :: "real \<Rightarrow> sample list \<Rightarrow> nat" where
  "needed r input = (size_t_of_int (lround (real (length input) * r)) + 16) mod 2 ^ 64"

definition process ::
  "'k samplerate \<Rightarrow> 'k stream_resampler \<Rightarrow> sample list \<Rightarrow>
   (exn \<times> 'k stream_resampler) + ('k stream_resampler \<times> sample list)" where
  "process lib r input =
     (let r1 = (if length (output_buf r) < needed (ratio r) input
                then r\<lparr>output_buf := resize (needed (ratio r) input) (output_buf r)\<rparr>
                else r);
          res = src_process lib (src_state r1) input (length (output_buf r1)) (ratio r1) False;
          r2 = r1\<lparr>src_state := src_next res,
                  output_buf := write_front (output_frames_gen res) (output_buf r1)\<rparr>
      in if src_error res \<noteq> 0 then Inl (AudioError (ResamplingFailed (src_error res)), r2)
         else Inr (r2, take (length (output_frames_gen res)) (output_buf r2)))"

definition resampler_flush ::
  "'k samplerate \<Rightarrow> 'k stream_resampler \<Rightarrow>
   (exn \<times> 'k stream_resampler) + ('k stream_resampler \<times> sample list)" where
  "resampler_flush lib r =
     (let r1 = (if output_buf r = [] then r\<lparr>output_buf := resize 64 (output_buf r)\<rparr> else r);
          res = src_process lib (src_state r1) [] (length (output_buf r1)) (ratio r1) True;
          r2 = r1\<lparr>src_state := src_next res,
                  output_buf := write_front (output_frames_gen res) (output_buf r1)\<rparr>
      in if src_error res \<noteq> 0 then Inl (AudioError (FlushFailed (src_error res)), r2)
         else
           let r3 = r2\<lparr>src_state := src_reset lib (src_state r2)\<rparr>
           in Inr (r3, take (length (output_frames_gen res)) (output_buf r3)))"

section \<open>Recognizer pool (recognizer.h, recognizer.cpp)\<close>

text \<open>
  One caller at a time: with no other thread to release a slot, a call that finds every
  slot in use waits for ever, which is the result \<open>None\<close>. The inference library is a
  parameter: \<open>create_stream\<close> gives the per-call stream of a handle (\<open>None\<close> for a null
  pointer), \<open>decode_stream\<close> the text of the result (\<open>None\<close> when the result or its text
  is null).
\<close>

record slot =
  handle :: nat
  in_use :: bool

record 'st sherpa =
  create_stream :: "nat \<Rightarrow> 'st option"
  decode_stream :: "nat \<Rightarrow> 'st \<Rightarrow> int \<Rightarrow> sample list \<Rightarrow> string option"

fun find_free :: "slot list \<Rightarrow> nat option" where
  "find_free [] = None"
| "find_free (x # xs) = (if \<not> in_use x then Some 0 else map_option Suc (find_free xs))"

definition find_last_not_of :: "string \<Rightarrow> string \<Rightarrow> nat option" where
  "find_last_not_of s cs =
     (let n = length (takeWhile (\<lambda>c. c \<in> set cs) (rev s))
      in if n < length s then Some (length s - 1 - n) else None)"

definition find_first_not_of :: "string \<Rightarrow> string \<Rightarrow> nat option" where
  "find_first_not_of s cs =
     (let n = length (takeWhile (\<lambda>c. c \<in> set cs) s)
      in if n < length s then Some n else None)"

definition whitespace :: string where
  "whitespace = [CHR '' '', CHR 0x09, CHR 0x0A, CHR 0x0D]"

definition trim :: "string \<Rightarrow> string" where
  "trim text0 =
     (let text1 = (case find_last_not_of text0 whitespace of
                     Some e \<Rightarrow> take (e + 1) text0
                   | None \<Rightarrow> [])
      in case find_first_not_of text1 whitespace of
           Some start \<Rightarrow> if start > 0 then drop start text1 else text1
         | None \<Rightarrow> text1)"

definition recognize ::
  "'st sherpa \<Rightarrow> slot list \<Rightarrow> sample list \<Rightarrow> int \<Rightarrow> (string \<times> slot list) option" where
  "recognize lib slots audio rate =
     (if audio = [] then Some ([], slots)
      else
        case find_free slots of
          None \<Rightarrow> None
        | Some slot_idx \<Rightarrow>
            let slots1 = list_update slots slot_idx ((slots ! slot_idx)\<lparr>in_use := True\<rparr>);
                h = handle (slots1 ! slot_idx)
            in case create_stream lib h of
                 None \<Rightarrow>
                   Some ([], list_update slots1 slot_idx ((slots1 ! slot_idx)\<lparr>in_use := False\<rparr>))
               | Some stream \<Rightarrow>
                   let text = (case decode_stream lib h stream rate audio of
                                 Some t \<Rightarrow> trim t
                               | None \<Rightarrow> [])
                   in Some (text, list_update slots1 slot_idx ((slots1 ! slot_idx)\<lparr>in_use := False\<rparr>)))"

section \<open>Configuration (config.h) and the session (handler.h, handler.cpp)\<close>

text \<open>The fields of \<^verbatim>\<open>Config\<close> that the modelled code reads.\<close>

record config =
  sample_rate :: int
  vad_threshold :: real
  vad_min_silence :: real
  vad_min_speech :: real
  vad_max_speech :: real
  vad_window_size :: int
  vad_context_size :: int
  min_audio_sec :: real
  max_audio_sec :: real
  max_ws_message_bytes :: nat

text \<open>The VAD configuration that \<^verbatim>\<open>Server::Server\<close> derives from the configuration.\<close>

definition server_vad_config :: "config \<Rightarrow> vad_config" where
  "server_vad_config cfg =
     \<lparr>threshold = vad_threshold cfg,
      min_silence_duration = vad_min_silence cfg,
      min_speech_duration = vad_min_speech cfg,
      max_speech_duration = vad_max_speech cfg,
      vc_sample_rate = sample_rate cfg,
      window_size = vad_window_size cfg,
      context_size = vad_context_size cfg\<rparr>"

text \<open>
  An \<^verbatim>\<open>OutMessage\<close> is kept as its type with the values its JSON text is rendered from.
\<close>

datatype out_message =
    Interim real real bool
  | Final string real
  | Done

text \<open>
  The calls a session makes on the metrics singleton, in the order they are made. Arguments
  that are clock readings are left out.
\<close>

datatype metric_event =
    SessionStarted
  | SessionEnded
  | RecordAudioLevel real
  | RecordSilence
  | ObserveTtfr
  | ObserveSegment real
  | RecordResult string
  | ObserveRequest real int nat
  | SetSpeechRatio real

text \<open>
  The data members of \<^verbatim>\<open>ASRSession\<close>. \<open>out_messages\<close> is the populated prefix of the message
  buffer (the first \<^verbatim>\<open>out_size_\<close> elements), \<open>detector\<close> is \<^verbatim>\<open>vad_\<close>, \<open>segments_count\<close> is
  \<^verbatim>\<open>segments_\<close>, \<open>metrics\<close> the calls made on the metrics singleton so far. The recognizer a
  session refers to is a parameter: the text \<^verbatim>\<open>Recognizer::recognize\<close> returns for a segment
  and a sample rate.
\<close>

record session =
  detector :: vad
  pending :: "sample list"
  out_messages :: "out_message list"
  has_first_result :: bool
  segments_count :: int
  silence_segments :: int
  audio_samples :: nat
  total_samples_received :: nat
  session_active :: bool
  max_duration_exceeded :: bool
  chunks :: int
  bytes :: nat
  metrics :: "metric_event list"

type_synonym recognizer = "sample list \<Rightarrow> int \<Rightarrow> string"

definition begin_messages :: "session \<Rightarrow> session" where
  "begin_messages s = s\<lparr>out_messages := []\<rparr>"

definition current_messages :: "session \<Rightarrow> out_message list" where
  "current_messages s = out_messages s"

definition write_interim :: "real \<Rightarrow> real \<Rightarrow> bool \<Rightarrow> session \<Rightarrow> session" where
  "write_interim duration rms speech s =
     s\<lparr>out_messages := out_messages s @ [Interim duration rms speech]\<rparr>"

definition write_final :: "string \<Rightarrow> real \<Rightarrow> session \<Rightarrow> session" where
  "write_final text duration s = s\<lparr>out_messages := out_messages s @ [Final text duration]\<rparr>"

definition write_done :: "session \<Rightarrow> session" where
  "write_done s = s\<lparr>out_messages := out_messages s @ [Done]\<rparr>"

definition record_metric :: "metric_event \<Rightarrow> session \<Rightarrow> session" where
  "record_metric e s = s\<lparr>metrics := metrics s @ [e]\<rparr>"

definition reset_session :: "session \<Rightarrow> session" where
  "reset_session s =
     s\<lparr>has_first_result := False,
       segments_count := 0,
       silence_segments := 0,
       audio_samples := 0,
       chunks := 0,
       bytes := 0,
       total_samples_received := 0,
       max_duration_exceeded := False\<rparr>"

definition session_new :: "vad_config \<Rightarrow> config \<Rightarrow> exn + session" where
  "session_new vad_config cfg =
     (case vad_new vad_config of
        Inl e \<Rightarrow> Inl e
      | Inr v \<Rightarrow>
          Inr (reset_session
                 \<lparr>detector = v,
                  pending = [],
                  out_messages = [],
                  has_first_result = False,
                  segments_count = 0,
                  silence_segments = 0,
                  audio_samples = 0,
                  total_samples_received = 0,
                  session_active = False,
                  max_duration_exceeded = False,
                  chunks = 0,
                  bytes = 0,
                  metrics = []\<rparr>))"

text \<open>
  One round of the loop of \<^verbatim>\<open>process_vad_segments\<close> on the segment at the head of the queue,
  up to the \<^verbatim>\<open>pop\<close>. It does not touch the detector.
\<close>

definition process_segment :: "recognizer \<Rightarrow> config \<Rightarrow> sample list \<Rightarrow> session \<Rightarrow> session" where
  "process_segment recog cfg segment s =
     (let audio_sec = real (length segment) / real_of_int (sample_rate cfg) in
      if audio_sec < min_audio_sec cfg then
        record_metric RecordSilence (s\<lparr>silence_segments := silence_segments s + 1\<rparr>)
      else
        let text = recog segment (sample_rate cfg);
            s1 = s\<lparr>audio_samples := audio_samples s + length segment\<rparr>;
            s2 = (if \<not> has_first_result s1
                  then record_metric ObserveTtfr (s1\<lparr>has_first_result := True\<rparr>)
                  else s1);
            s3 = record_metric (ObserveSegment audio_sec) s2
        in if text = [] then
             record_metric RecordSilence (s3\<lparr>silence_segments := silence_segments s3 + 1\<rparr>)
           else
             write_final text audio_sec
               (record_metric (RecordResult text) (s3\<lparr>segments_count := segments_count s3 + 1\<rparr>)))"

function process_vad_segments :: "recognizer \<Rightarrow> config \<Rightarrow> session \<Rightarrow> session" where
  "process_vad_segments recog cfg s =
     (if \<not> vad_empty (detector s) then
        process_vad_segments recog cfg
          ((process_segment recog cfg (vad_front (detector s)) s)
             \<lparr>detector := vad_pop (detector s)\<rparr>)
      else s)"
  by pat_completeness auto
termination
  by (relation "measure (\<lambda>(recog, cfg, s). length (segments (detector s)))")
     (auto simp: vad_empty_def vad_pop_def)

definition flush_pending :: "vad_model \<Rightarrow> config \<Rightarrow> session \<Rightarrow> (exn \<times> session) + session" where
  "flush_pending net cfg s =
     (if pending s \<noteq> [] then
        let s1 = s\<lparr>pending := resize (size_t_of_int (vad_window_size cfg)) (pending s)\<rparr>
        in case accept_waveform net (detector s1) (pending s1) of
             Inl (e, v) \<Rightarrow> Inl (e, s1\<lparr>detector := v\<rparr>)
           | Inr v \<Rightarrow> Inr (s1\<lparr>detector := flush v, pending := []\<rparr>)
      else Inr (s\<lparr>detector := flush (detector s)\<rparr>))"

definition finalize_session :: "config \<Rightarrow> session \<Rightarrow> session" where
  "finalize_session cfg s =
     (let audio_sec = real (audio_samples s) / real_of_int (sample_rate cfg);
          s1 = record_metric (ObserveRequest audio_sec (chunks s) (bytes s)) s;
          total_segments = segments_count s1 + silence_segments s1;
          s2 = (if total_segments > 0
                then record_metric
                       (SetSpeechRatio (real_of_int (segments_count s1) / real_of_int total_segments)) s1
                else s1);
          s3 = write_done s2;
          s4 = (if session_active s3
                then (record_metric SessionEnded s3)\<lparr>session_active := False\<rparr>
                else s3)
      in reset_session (s4\<lparr>detector := reset (detector s4), pending := []\<rparr>))"

text \<open>
  The windowing loop of \<^verbatim>\<open>on_audio\<close>. The subtraction is in \<^verbatim>\<open>size_t\<close>. A round that copies
  nothing and hands an empty window to the detector would repeat for ever; the result
  \<open>None\<close> stands for a loop that does not end.
\<close>

definition size_t_minus :: "nat \<Rightarrow> nat \<Rightarrow> nat" where
  "size_t_minus a b = nat ((int a - int b) mod 2 ^ 64)"

partial_function (option) on_audio_windows ::
  "vad_model \<Rightarrow> config \<Rightarrow> sample list \<Rightarrow> nat \<Rightarrow> session \<Rightarrow> ((exn \<times> session) + session) option" where
  "on_audio_windows net cfg chunk offset s =
     (if offset < length chunk then
        let remaining_in_window = size_t_minus (size_t_of_int (vad_window_size cfg)) (length (pending s));
            to_copy = min remaining_in_window (length chunk - offset);
            s1 = s\<lparr>pending := pending s @ take to_copy (drop offset chunk)\<rparr>
        in if int_of_size_t (length (pending s1)) = vad_window_size cfg then
             (case accept_waveform net (detector s1) (pending s1) of
                Inl (e, v) \<Rightarrow> Some (Inl (e, s1\<lparr>detector := v\<rparr>))
              | Inr v \<Rightarrow>
                  on_audio_windows net cfg chunk (offset + to_copy) (s1\<lparr>detector := v, pending := []\<rparr>))
           else on_audio_windows net cfg chunk (offset + to_copy) s1
      else Some (Inr s))"

declare on_audio_windows.simps [code]

definition on_audio ::
  "vad_model \<Rightarrow> recognizer \<Rightarrow> config \<Rightarrow> session \<Rightarrow> sample list \<Rightarrow>
   ((exn \<times> session) + session) option" where
  "on_audio net recog cfg s0 chunk =
     (let s = begin_messages s0 in
      if max_duration_exceeded s then Some (Inr s)
      else
        let s1 = (if \<not> session_active s
                  then record_metric SessionStarted (s\<lparr>session_active := True\<rparr>)
                  else s);
            s2 = s1\<lparr>chunks := chunks s1 + 1,
                    total_samples_received := total_samples_received s1 + length chunk,
                    bytes := bytes s1 + length chunk * 4\<rparr>;
            rms = compute_rms chunk;
            s3 = record_metric (RecordAudioLevel rms) s2
        in case on_audio_windows net cfg chunk 0 s3 of
             None \<Rightarrow> None
           | Some (Inl e) \<Rightarrow> Some (Inl e)
           | Some (Inr s4) \<Rightarrow>
               let s5 = process_vad_segments recog cfg s4;
                   s6 = (if out_messages s5 = [] then
                           write_interim
                             (real (total_samples_received s5) / real_of_int (sample_rate cfg))
                             rms (is_speech (detector s5)) s5
                         else s5);
                   received_sec = real (total_samples_received s6) / real_of_int (sample_rate cfg)
               in if received_sec > max_audio_sec cfg then
                    (case flush_pending net cfg s6 of
                       Inl e \<Rightarrow> Some (Inl e)
                     | Inr s7 \<Rightarrow>
                         Some (Inr ((finalize_session cfg (process_vad_segments recog cfg s7))
                                      \<lparr>max_duration_exceeded := True\<rparr>)))
                  else Some (Inr s6))"

definition on_recognize ::
  "vad_model \<Rightarrow> recognizer \<Rightarrow> config \<Rightarrow> session \<Rightarrow> (exn \<times> session) + session" where
  "on_recognize net recog cfg s0 =
     (let s = begin_messages s0 in
      if max_duration_exceeded s then Inr (s\<lparr>max_duration_exceeded := False\<rparr>)
      else
        case flush_pending net cfg s of
          Inl e \<Rightarrow> Inl e
        | Inr s1 \<Rightarrow> Inr (finalize_session cfg (process_vad_segments recog cfg s1)))"

definition on_reset :: "session \<Rightarrow> session" where
  "on_reset s =
     (let s1 = s\<lparr>max_duration_exceeded := False\<rparr>;
          s2 = (if session_active s1
                then (record_metric SessionEnded s1)\<lparr>session_active := False\<rparr>
                else s1)
      in reset_session (s2\<lparr>detector := reset (detector s2), pending := []\<rparr>))"

definition on_close :: "session \<Rightarrow> session" where
  "on_close s =
     (if session_active s
      then (record_metric SessionEnded s)\<lparr>session_active := False\<rparr>
      else s)"

text \<open>
  Sequences of calls on one session. A call that throws or does not return ends the
  sequence. \<open>returned\<close> is the slice a call hands back.
\<close>

datatype session_call = OnAudio "sample list" | OnRecognize | OnReset | OnClose

definition session_step ::
  "vad_model \<Rightarrow> recognizer \<Rightarrow> config \<Rightarrow> session \<Rightarrow> session_call \<Rightarrow>
   ((exn \<times> session) + session) option" where
  "session_step net recog cfg s call =
     (case call of
        OnAudio chunk \<Rightarrow> on_audio net recog cfg s chunk
      | OnRecognize \<Rightarrow> Some (on_recognize net recog cfg s)
      | OnReset \<Rightarrow> Some (Inr (on_reset s))
      | OnClose \<Rightarrow> Some (Inr (on_close s)))"

definition returned :: "session_call \<Rightarrow> session \<Rightarrow> out_message list" where
  "returned call s =
     (case call of
        OnAudio chunk \<Rightarrow> current_messages s
      | OnRecognize \<Rightarrow> current_messages s
      | OnReset \<Rightarrow> []
      | OnClose \<Rightarrow> [])"

fun run_calls ::
  "vad_model \<Rightarrow> recognizer \<Rightarrow> config \<Rightarrow> session \<Rightarrow> session_call list \<Rightarrow>
   ((exn \<times> session) + (session \<times> out_message list)) option" where
  "run_calls net recog cfg s [] = Some (Inr (s, []))"
| "run_calls net recog cfg s (call # calls) =
     (case session_step net recog cfg s call of
        None \<Rightarrow> None
      | Some (Inl e) \<Rightarrow> Some (Inl e)
      | Some (Inr s1) \<Rightarrow>
          (case run_calls net recog cfg s1 calls of
             None \<Rightarrow> None
           | Some (Inl e) \<Rightarrow> Some (Inl e)
           | Some (Inr (s2, ms)) \<Rightarrow> Some (Inr (s2, returned call s1 @ ms))))"

section \<open>WebSocket controller (server.cpp)\<close>

text \<open>
  A connection together with its \<^verbatim>\<open>WsConnectionContext\<close>: \<open>ctx_session\<close> is the session the
  context owns, \<open>sent\<close> the messages handed to \<^verbatim>\<open>conn->send\<close>, \<open>shut_down\<close> the last
  \<^verbatim>\<open>conn->shutdown\<close>. The controller's own metric calls are not modelled. What the handler
  reads from outside is collected in \<open>ws_env\<close>: the global \<^verbatim>\<open>g_ws_state\<close>, the sample-rate
  converter, the JSON library (as the outcome of looking for an integer \<^verbatim>\<open>sample_rate\<close> in a
  text: an exception of the library, no such key, or the integer) and the reading of four
  bytes as a float.
\<close>

datatype ws_message_type = Text | Binary | Ping | Pong | Close | Unknown

datatype close_code = kViolation | kUnexpectedCondition

datatype json_probe = JsonException | NoSampleRate | SampleRate int

record 'k ws_connection =
  ctx_session :: session
  audio_buf :: "sample list"
  close_reason :: string
  resampler :: "'k stream_resampler option"
  sample_rate_received :: bool
  sent :: "out_message list"
  shut_down :: "(close_code \<times> string) option"

record 'k ws_env =
  env_net :: vad_model
  env_recognizer :: recognizer
  env_config :: config
  env_samplerate :: "'k samplerate"
  env_json :: "string \<Rightarrow> json_probe"
  env_float :: "byte list \<Rightarrow> sample"

definition handleNewConnection :: "'k ws_env \<Rightarrow> exn + 'k ws_connection" where
  "handleNewConnection env =
     (case session_new (server_vad_config (env_config env)) (env_config env) of
        Inl e \<Rightarrow> Inl e
      | Inr s \<Rightarrow>
          Inr \<lparr>ctx_session = s,
               audio_buf = [],
               close_reason = ''normal'',
               resampler = None,
               sample_rate_received = False,
               sent = [],
               shut_down = None\<rparr>)"

fun floats_of_bytes :: "(byte list \<Rightarrow> sample) \<Rightarrow> nat \<Rightarrow> byte list \<Rightarrow> sample list" where
  "floats_of_bytes f 0 bs = []"
| "floats_of_bytes f (Suc n) bs = f (take 4 bs) # floats_of_bytes f n (drop 4 bs)"

definition send_all :: "out_message list \<Rightarrow> 'k ws_connection \<Rightarrow> 'k ws_connection" where
  "send_all responses c = c\<lparr>sent := sent c @ responses\<rparr>"

text \<open>The handler's \<^verbatim>\<open>catch (const std::exception&)\<close>.\<close>

definition caught :: "exn \<Rightarrow> 'k ws_connection \<Rightarrow> 'k ws_connection" where
  "caught e c =
     c\<lparr>close_reason := ''internal_error'',
       shut_down := Some (kUnexpectedCondition, ''Internal error'')\<rparr>"

text \<open>\<^verbatim>\<open>session->on_audio\<close> on a buffer, with the responses sent at the end of the handler.\<close>

definition audio_to_session ::
  "'k ws_env \<Rightarrow> 'k ws_connection \<Rightarrow> sample list \<Rightarrow> 'k ws_connection option" where
  "audio_to_session env c buf =
     (case on_audio (env_net env) (env_recognizer env) (env_config env) (ctx_session c) buf of
        None \<Rightarrow> None
      | Some (Inl (e, s)) \<Rightarrow> Some (caught e (c\<lparr>ctx_session := s\<rparr>))
      | Some (Inr s) \<Rightarrow> Some (send_all (current_messages s) (c\<lparr>ctx_session := s\<rparr>)))"

definition handle_binary ::
  "'k ws_env \<Rightarrow> 'k ws_connection \<Rightarrow> byte list \<Rightarrow> 'k ws_connection option" where
  "handle_binary env c msg =
     (if length msg > max_ws_message_bytes (env_config env) then
        Some (c\<lparr>close_reason := ''message_too_large'',
                shut_down := Some (kViolation, ''Message too large'')\<rparr>)
      else if length msg < 4 \<or> length msg mod 4 \<noteq> 0 then Some c
      else
        let num_samples = length msg div 4;
            c1 = c\<lparr>audio_buf := floats_of_bytes (env_float env) num_samples msg\<rparr>
        in case resampler c1 of
             Some r \<Rightarrow>
               (case process (env_samplerate env) r (audio_buf c1) of
                  Inl (e, r1) \<Rightarrow> Some (caught e (c1\<lparr>resampler := Some r1\<rparr>))
                | Inr (r1, resampled) \<Rightarrow>
                    audio_to_session env (c1\<lparr>resampler := Some r1\<rparr>) resampled)
           | None \<Rightarrow> audio_to_session env c1 (audio_buf c1))"

text \<open>\<^verbatim>\<open>session->on_recognize\<close>, with the responses sent at the end of the handler.\<close>

definition recognize_to_session :: "'k ws_env \<Rightarrow> 'k ws_connection \<Rightarrow> 'k ws_connection" where
  "recognize_to_session env c =
     (case on_recognize (env_net env) (env_recognizer env) (env_config env) (ctx_session c) of
        Inl (e, s) \<Rightarrow> caught e (c\<lparr>ctx_session := s\<rparr>)
      | Inr s \<Rightarrow> send_all (current_messages s) (c\<lparr>ctx_session := s\<rparr>))"

text \<open>The commands: what the handler does with a text that is not taken as an announcement.\<close>

definition handle_command ::
  "'k ws_env \<Rightarrow> 'k ws_connection \<Rightarrow> string \<Rightarrow> 'k ws_connection option" where
  "handle_command env c msg =
     (if msg = ''RECOGNIZE'' then
        (case resampler c of
           Some r \<Rightarrow>
             (case resampler_flush (env_samplerate env) r of
                Inl (e, r1) \<Rightarrow> Some (caught e (c\<lparr>resampler := Some r1\<rparr>))
              | Inr (r1, tail) \<Rightarrow>
                  let c1 = c\<lparr>resampler := Some r1\<rparr>
                  in if tail \<noteq> [] then
                       (case on_audio (env_net env) (env_recognizer env) (env_config env)
                               (ctx_session c1) tail of
                          None \<Rightarrow> None
                        | Some (Inl (e, s)) \<Rightarrow> Some (caught e (c1\<lparr>ctx_session := s\<rparr>))
                        | Some (Inr s) \<Rightarrow>
                            Some (recognize_to_session env
                                    (send_all (current_messages s) (c1\<lparr>ctx_session := s\<rparr>))))
                     else Some (recognize_to_session env c1))
         | None \<Rightarrow> Some (recognize_to_session env c))
      else if msg = ''RESET'' then
        let c1 = c\<lparr>ctx_session := on_reset (ctx_session c)\<rparr>
        in case resampler c1 of
             Some r \<Rightarrow>
               (case resampler_flush (env_samplerate env) r of
                  Inl (e, r1) \<Rightarrow> Some (caught e (c1\<lparr>resampler := Some r1\<rparr>))
                | Inr (r1, tail) \<Rightarrow> Some (c1\<lparr>resampler := Some r1\<rparr>))
           | None \<Rightarrow> Some c1
      else Some c)"

definition handle_text ::
  "'k ws_env \<Rightarrow> 'k ws_connection \<Rightarrow> string \<Rightarrow> 'k ws_connection option" where
  "handle_text env c msg =
     (if \<not> sample_rate_received c \<and> msg \<noteq> [] \<and> hd msg = CHR ''{'' then
        (case env_json env msg of
           SampleRate input_rate \<Rightarrow>
             if input_rate < 8000 \<or> input_rate > 192000 then Some c
             else
               let c1 = c\<lparr>sample_rate_received := True\<rparr>
               in if input_rate \<noteq> sample_rate (env_config env) then
                    (case stream_resampler_new (env_samplerate env) input_rate
                            (sample_rate (env_config env)) of
                       Inl e \<Rightarrow> Some (caught e c1)
                     | Inr r \<Rightarrow> Some (c1\<lparr>resampler := Some r\<rparr>))
                  else Some c1
         | NoSampleRate \<Rightarrow> handle_command env c msg
         | JsonException \<Rightarrow> handle_command env c msg)
      else handle_command env c msg)"

definition handleNewMessage ::
  "'k ws_env \<Rightarrow> 'k ws_connection \<Rightarrow> string \<times> ws_message_type \<Rightarrow> 'k ws_connection option" where
  "handleNewMessage env c m =
     (case snd m of
        Binary \<Rightarrow> handle_binary env c (fst m)
      | Text \<Rightarrow> handle_text env c (fst m)
      | Ping \<Rightarrow> Some c
      | Pong \<Rightarrow> Some c
      | Close \<Rightarrow> Some c
      | Unknown \<Rightarrow> Some c)"

definition handleConnectionClosed :: "'k ws_connection \<Rightarrow> 'k ws_connection" where
  "handleConnectionClosed c = c\<lparr>ctx_session := on_close (ctx_session c)\<rparr>"

fun run_messages ::
  "'k ws_env \<Rightarrow> 'k ws_connection \<Rightarrow> (string \<times> ws_message_type) list \<Rightarrow> 'k ws_connection option" where
  "run_messages env c [] = Some c"
| "run_messages env c (m # ms) =
     (case handleNewMessage env c m of
        None \<Rightarrow> None
      | Some c1 \<Rightarrow> run_messages env c1 ms)"

section \<open>Predicates and concrete inputs used by the theorems\<close>

text \<open>
  The duration of a run of samples as \<open>finalize_segment\<close> computes it: the number of samples
  and the sample rate converted to \<^verbatim>\<open>float\<close>, and their \<^verbatim>\<open>float\<close> quotient.
\<close>

definition run_duration :: "vad_config \<Rightarrow> sample list \<Rightarrow> real" where
  "run_duration c seg =
     float32 (float32 (real (length seg)) / float32 (real_of_int (vc_sample_rate c)))"


text \<open>The speech run a window classified as speech is appended to.\<close>

definition speech_run :: "vad \<Rightarrow> sample list \<Rightarrow> sample list" where
  "speech_run v w = (if in_speech v then speech_buf v else []) @ w"

text \<open>
  \<open>finalized v run v'\<close>: the detector \<open>v'\<close> is what the end of the speech run \<open>run\<close> makes
  of the detector \<open>v\<close>. The state machine is reset and the accumulator empty; the run is the
  new last segment of the queue when it is not empty and its duration is at least
  \<^verbatim>\<open>min_speech_duration\<close>, and otherwise the queue is as it was: the run is gone.
\<close>

definition finalized :: "vad \<Rightarrow> sample list \<Rightarrow> vad \<Rightarrow> bool" where
  "finalized v run v' =
     (\<not> in_speech v' \<and> speech_buf v' = [] \<and>
      speech_start_samples v' = 0 \<and> silence_samples v' = 0 \<and>
      segments v' =
        (if run = [] \<or> run_duration (vad_cfg v) run < min_speech_duration (vad_cfg v)
         then segments v else segments v @ [run]))"

text \<open>
  A small detector: four samples per second, windows of two samples, and a network that
  reports the last sample of its input as the speech probability.
\<close>

definition ex_net :: vad_model where
  "ex_net input_buf st rate = (if input_buf = [] then 0 else last input_buf, st)"

definition ex_vad_config :: vad_config where
  "ex_vad_config =
     \<lparr>threshold = 1 / 2, min_silence_duration = 10, min_speech_duration = 1 / 2,
      max_speech_duration = 1, vc_sample_rate = 4, window_size = 2, context_size = 0\<rparr>"

text \<open>The same detector with a minimum of \<^verbatim>\<open>0.6f\<close> and a maximum of \<^verbatim>\<open>0.7f\<close> seconds.\<close>

definition ex_tight_config :: vad_config where
  "ex_tight_config =
     \<lparr>threshold = 1 / 2, min_silence_duration = 10, min_speech_duration = float32 (3 / 5),
      max_speech_duration = float32 (7 / 10), vc_sample_rate = 4, window_size = 2,
      context_size = 0\<rparr>"


text \<open>
  A detector at 16 kHz with windows of 512 samples, a minimum speech duration of
  \<^verbatim>\<open>0.032f\<close> and a maximum of \<^verbatim>\<open>0.0640625f\<close> seconds.
\<close>

definition ex_16k_config :: vad_config where
  "ex_16k_config =
     \<lparr>threshold = 1 / 2, min_silence_duration = 1 / 2, min_speech_duration = float32 (4 / 125),
      max_speech_duration = float32 (41 / 640), vc_sample_rate = 16000, window_size = 512,
      context_size = 64\<rparr>"

definition ex_vad :: "vad_config \<Rightarrow> vad" where
  "ex_vad c =
     \<lparr>vad_cfg = c, state = replicate kStateSize 0, context_buf = [], in_speech = False,
      silence_samples = 0, speech_start_samples = 0, speech_buf = [], segments = []\<rparr>"

text \<open>A pool of two slots, the first one taken, and a library that cannot create streams.\<close>

definition ex_slots :: "slot list" where
  "ex_slots = [\<lparr>handle = 1, in_use = True\<rparr>, \<lparr>handle = 2, in_use = False\<rparr>]"

definition ex_sherpa_null :: "unit sherpa" where
  "ex_sherpa_null =
     \<lparr>create_stream = (\<lambda>h. None), decode_stream = (\<lambda>h st rate audio. None)\<rparr>"

text \<open>A parser that reports a mono file of one frame more than an hour at 48 kHz.\<close>

definition ex_drwav_init :: "byte list \<Rightarrow> drwav option" where
  "ex_drwav_init data =
     Some \<lparr>channels = 1, sampleRate = 48000, totalPCMFrameCount = 172800001, pcm_frames = []\<rparr>"

definition ex_src_simple :: "sample list \<Rightarrow> nat \<Rightarrow> real \<Rightarrow> int \<times> sample list" where
  "ex_src_simple input room r = (0, [])"

text \<open>A converter that succeeds and generates nothing, and the resampler from 48 kHz to 16 kHz.\<close>

definition ex_samplerate :: "unit samplerate" where
  "ex_samplerate =
     \<lparr>src_new = Inr (),
      src_process = (\<lambda>k input room r e.
         \<lparr>src_error = 0, src_next = k, output_frames_gen = [], input_frames_used = length input\<rparr>),
      src_reset = (\<lambda>k. k)\<rparr>"

definition ex_resampler :: "unit stream_resampler" where
  "ex_resampler = \<lparr>src_state = (), ratio = 1 / 3, output_buf = []\<rparr>"

text \<open>
  The invariant of a session: its detector was configured with the window size of the
  session's configuration, that size is a positive C \<^verbatim>\<open>int\<close>, and the pending samples do
  not fill a window.
\<close>

definition session_inv :: "config \<Rightarrow> session \<Rightarrow> bool" where
  "session_inv cfg s =
     (window_size (vad_cfg (detector s)) = vad_window_size cfg \<and>
      0 < vad_window_size cfg \<and> vad_window_size cfg < 2 ^ 31 \<and>
      int (length (pending s)) < vad_window_size cfg)"

text \<open>What a run of calls returned: all messages, and the pending samples at its end.\<close>

definition messages_of ::
  "((exn \<times> session) + (session \<times> out_message list)) option \<Rightarrow> out_message list option" where
  "messages_of r = (case r of Some (Inr (s, ms)) \<Rightarrow> Some ms | _ \<Rightarrow> None)"

definition pending_of ::
  "((exn \<times> session) + (session \<times> out_message list)) option \<Rightarrow> sample list option" where
  "pending_of r = (case r of Some (Inr (s, ms)) \<Rightarrow> Some (pending s) | _ \<Rightarrow> None)"

text \<open>The conversion ratio of a connection's resampler, if it has one.\<close>

definition resampler_ratio :: "'k ws_connection \<Rightarrow> real option" where
  "resampler_ratio c = map_option ratio (resampler c)"

text \<open>
  A message is a valid announcement when it is a text that starts with a brace and in which
  the JSON library finds an integer \<^verbatim>\<open>sample_rate\<close> between 8000 and 192000.
\<close>

definition valid_announcement :: "'k ws_env \<Rightarrow> string \<times> ws_message_type \<Rightarrow> bool" where
  "valid_announcement env m =
     (snd m = Text \<and> fst m \<noteq> [] \<and> hd (fst m) = CHR ''{'' \<and>
      (case env_json env (fst m) of
         SampleRate n \<Rightarrow> 8000 \<le> n \<and> n \<le> 192000
       | NoSampleRate \<Rightarrow> False
       | JsonException \<Rightarrow> False))"

text \<open>
  A small session on the small detector: at most one second (four samples) of audio, a
  recognizer that hears the same word in every segment.
\<close>

definition ex_config :: config where
  "ex_config =
     \<lparr>sample_rate = 4, vad_threshold = 1 / 2, vad_min_silence = 10, vad_min_speech = 1 / 2,
      vad_max_speech = 1, vad_window_size = 2, vad_context_size = 0,
      min_audio_sec = 1 / 2, max_audio_sec = 1, max_ws_message_bytes = 4194304\<rparr>"

definition ex_recognizer :: recognizer where
  "ex_recognizer segment rate = ''hi''"

definition ex_session :: session where
  "ex_session =
     \<lparr>detector = ex_vad ex_vad_config, pending = [], out_messages = [],
      has_first_result = False, segments_count = 0, silence_segments = 0, audio_samples = 0,
      total_samples_received = 0, session_active = False, max_duration_exceeded = False,
      chunks = 0, bytes = 0, metrics = []\<rparr>"

text \<open>The small session after five samples of speech: the duration cap has closed it.\<close>

definition ex_exceeded_session :: session where
  "ex_exceeded_session =
     ex_session
       \<lparr>out_messages := [Final ''hi'' 1, Done],
        max_duration_exceeded := True,
        metrics := [SessionStarted, RecordAudioLevel 1, ObserveTtfr, ObserveSegment 1,
                    RecordResult ''hi'', ObserveRequest 1 1 20, SetSpeechRatio 1, SessionEnded]\<rparr>"

text \<open>
  A connection of the small session, with a JSON library that knows three announcements,
  one of them with a rate below the accepted range.
\<close>

definition ex_announce_16000 :: string where
  "ex_announce_16000 = ''{'' @ [CHR 0x22] @ ''sample_rate'' @ [CHR 0x22] @ '':16000}''"

definition ex_announce_44100 :: string where
  "ex_announce_44100 = ''{'' @ [CHR 0x22] @ ''sample_rate'' @ [CHR 0x22] @ '':44100}''"

definition ex_announce_100 :: string where
  "ex_announce_100 = ''{'' @ [CHR 0x22] @ ''sample_rate'' @ [CHR 0x22] @ '':100}''"

definition ex_json :: "string \<Rightarrow> json_probe" where
  "ex_json msg =
     (if msg = ex_announce_16000 then SampleRate 16000
      else if msg = ex_announce_44100 then SampleRate 44100
      else if msg = ex_announce_100 then SampleRate 100
      else JsonException)"

definition ex_env :: "unit ws_env" where
  "ex_env =
     \<lparr>env_net = ex_net, env_recognizer = ex_recognizer, env_config = ex_config,
      env_samplerate = ex_samplerate, env_json = ex_json, env_float = (\<lambda>bs. 0)\<rparr>"

definition ex_connection :: "unit ws_connection" where
  "ex_connection =
     \<lparr>ctx_session = ex_session, audio_buf = [], close_reason = ''normal'', resampler = None,
      sample_rate_received = False, sent = [], shut_down = None\<rparr>"

section \<open>Rounding to binary32, evaluated\<close>

lemma f32_exponent_scan_numeral:
  "f32_exponent_scan (numeral k) a =
     (if pow2 (int (numeral k) - 126) \<le> a then int (numeral k) - 126
      else f32_exponent_scan (pred_numeral k) a)"
  by (simp add: numeral_eq_Suc)

lemmas float32_eval =
  float32_def f32_exponent_scan_numeral pow2_def round_half_even_def Let_def

text \<open>
  Small integers and halves are \<^verbatim>\<open>float\<close> values; \<open>2^24 + 1\<close> is the first integer that is
  not, and a tie goes to the even neighbour; one tenth, \<^verbatim>\<open>0.6f\<close>, \<^verbatim>\<open>0.7f\<close> and \<^verbatim>\<open>0.032f\<close> have
  the significands of the hardware (\<^verbatim>\<open>0x3DCCCCCD\<close> for one tenth).
\<close>

lemma float32_values:
  "float32 0 = 0" "float32 1 = 1" "float32 2 = 2" "float32 4 = 4" "float32 8 = 8"
  "float32 (1 / 2) = 1 / 2" "float32 (3 / 4) = 3 / 4" "float32 10 = 10" "float32 40 = 40"
  "float32 512 = 512" "float32 16000 = 16000"
  "float32 16777217 = 16777216" "float32 16777219 = 16777220"
  "float32 (1 / 10) = 13421773 / 134217728"
  "float32 (3 / 5) = 5033165 / 8388608"
  "float32 (7 / 10) = 11744051 / 16777216"
  "float32 (4 / 125) = 8589935 / 268435456"
  "float32 (41 / 640) = 8598323 / 134217728"
  by (simp_all add: float32_eval)

section \<open>The detector's queue holds no short segment\<close>

lemma finalize_segment_cfg: "vad_cfg (finalize_segment v) = vad_cfg v"
  by (simp add: finalize_segment_def Let_def)



text \<open>
  \<open>finalize_segment\<close> on a detector that has the configuration and the queue of \<open>v\<close>
  finalizes its accumulator.
\<close>

lemma finalize_segment_finalized:
  "vad_cfg u = vad_cfg v \<Longrightarrow> segments u = segments v \<Longrightarrow>
   finalized v (speech_buf u) (finalize_segment u)"
  by (simp add: finalized_def finalize_segment_def run_duration_def Let_def)

lemma infer_Inr:
  "infer net v w = Inr (p, v1) \<Longrightarrow>
   vad_cfg v1 = vad_cfg v \<and> segments v1 = segments v \<and> in_speech v1 = in_speech v \<and>
   speech_buf v1 = speech_buf v \<and> speech_start_samples v1 = speech_start_samples v \<and>
   silence_samples v1 = silence_samples v"
  by (auto simp: infer_def Let_def split: if_splits)

lemma infer_Inr_size:
  "infer net v w = Inr (p, v1) \<Longrightarrow> int_of_size_t (length w) = window_size (vad_cfg v)"
  by (auto simp: infer_def Let_def split: if_splits)

text \<open>
  A call of \<open>accept_waveform\<close> that returns leaves a state \<open>u\<close> with the old queue, or
  what \<open>finalize_segment\<close> makes of such a state.
\<close>

lemma accept_waveform_cases:
  assumes "accept_waveform net v w = Inr v'"
  shows "\<exists>u. vad_cfg u = vad_cfg v \<and> segments u = segments v \<and>
             (v' = u \<or> v' = finalize_segment u)"
proof -
  from assms obtain p v1 where inf: "infer net v w = Inr (p, v1)"
    by (auto simp: accept_waveform_def Let_def split: if_splits sum.splits)
  note fr = infer_Inr [OF inf]
  define v2 where "v2 = (if \<not> in_speech v1
                        then v1\<lparr>in_speech := True, speech_start_samples := 0, speech_buf := []\<rparr>
                        else v1)"
  define v3 where "v3 = v2\<lparr>silence_samples := 0,
                          speech_buf := speech_buf v2 @ w,
                          speech_start_samples := speech_start_samples v2 + window_size (vad_cfg v)\<rparr>"
  define v4 where "v4 = v1\<lparr>silence_samples := silence_samples v1 + window_size (vad_cfg v),
                          speech_buf := speech_buf v1 @ w,
                          speech_start_samples := speech_start_samples v1 + window_size (vad_cfg v)\<rparr>"
  have w: "int_of_size_t (length w) = window_size (vad_cfg v)"
    using inf by (rule infer_Inr_size)
  have "accept_waveform net v w =
          (if p \<ge> threshold (vad_cfg v) then
             Inr (if speech_start_samples v3 \<ge> max_speech_samples (vad_cfg v)
                  then finalize_segment v3 else v3)
           else if in_speech v1 then
             Inr (if silence_samples v4 \<ge> min_silence_samples (vad_cfg v)
                  then finalize_segment v4 else v4)
           else Inr v1)"
    unfolding v2_def v3_def v4_def
    by (simp add: accept_waveform_def [of net v w] w inf Let_def)
  with assms
  have "v' = v1 \<or> v' = v3 \<or> v' = finalize_segment v3 \<or> v' = v4 \<or> v' = finalize_segment v4"
    by (simp split: if_splits)
  moreover have "vad_cfg v3 = vad_cfg v" "segments v3 = segments v"
    "vad_cfg v4 = vad_cfg v" "segments v4 = segments v"
    using fr by (simp_all add: v2_def v3_def v4_def)
  ultimately show ?thesis using fr by blast
qed

lemma accept_waveform_cfg: "accept_waveform net v w = Inr v' \<Longrightarrow> vad_cfg v' = vad_cfg v"
  using accept_waveform_cases [of net v w v'] finalize_segment_cfg by auto


lemma flush_cfg: "vad_cfg (flush v) = vad_cfg v"
  by (simp add: flush_def finalize_segment_cfg)










lemma accept_waveform_speech_max:
  assumes inf: "infer net v w = Inr (p, v1)"
    and speech: "threshold (vad_cfg v) \<le> p"
    and reach: "max_speech_samples (vad_cfg v)
                  \<le> (if in_speech v then speech_start_samples v else 0) + window_size (vad_cfg v)"
  shows "\<exists>v'. accept_waveform net v w = Inr v' \<and> finalized v (speech_run v w) v'"
proof -
  note fr = infer_Inr [OF inf] and sz = infer_Inr_size [OF inf]
  define v2 where "v2 = (if \<not> in_speech v1
                        then v1\<lparr>in_speech := True, speech_start_samples := 0, speech_buf := []\<rparr>
                        else v1)"
  define v3 where "v3 = v2\<lparr>silence_samples := 0,
                          speech_buf := speech_buf v2 @ w,
                          speech_start_samples := speech_start_samples v2 + window_size (vad_cfg v)\<rparr>"
  have v3: "speech_buf v3 = speech_run v w" "segments v3 = segments v" "vad_cfg v3 = vad_cfg v"
    "speech_start_samples v3 =
       (if in_speech v then speech_start_samples v else 0) + window_size (vad_cfg v)"
    using fr by (simp_all add: v2_def v3_def speech_run_def)
  have "accept_waveform net v w =
          Inr (if speech_start_samples v3 \<ge> max_speech_samples (vad_cfg v)
               then finalize_segment v3 else v3)"
    using speech unfolding v2_def v3_def
    by (simp add: accept_waveform_def [of net v w] sz inf Let_def)
  with reach v3(4) have "accept_waveform net v w = Inr (finalize_segment v3)"
    by simp
  moreover from finalize_segment_finalized [OF v3(3) v3(2)]
  have "finalized v (speech_run v w) (finalize_segment v3)"
    by (simp add: v3(1))
  ultimately show ?thesis by simp
qed

lemma int_of_size_t_2: "int_of_size_t 2 = 2" "int_of_size_t (Suc (Suc 0)) = 2"
  by (simp_all add: int_of_size_t_def)

lemma ex_vad_new: "vad_new ex_vad_config = Inr (ex_vad ex_vad_config)"
  by (simp add: vad_new_def ex_vad_config_def ex_vad_def)

lemma ex_speech_window:
  "accept_waveform ex_net (ex_vad ex_vad_config) [1, 1] =
     Inr ((ex_vad ex_vad_config)
            \<lparr>in_speech := True, speech_start_samples := 2, speech_buf := [1, 1]\<rparr>)"
  by (simp add: accept_waveform_def infer_def Let_def ex_vad_def ex_vad_config_def ex_net_def
      int_of_size_t_2 max_speech_samples_def int64_of_real_def kStateSize_def float32_values)

lemma ex_speech_then_silence:
  "accept_waveform ex_net
     ((ex_vad ex_vad_config)\<lparr>in_speech := True, speech_start_samples := 2, speech_buf := [1, 1]\<rparr>)
     [0, 0] =
   Inr ((ex_vad ex_vad_config)
          \<lparr>in_speech := True, speech_start_samples := 4, speech_buf := [1, 1, 0, 0],
            silence_samples := 2\<rparr>)"
  by (simp add: accept_waveform_def infer_def Let_def ex_vad_def ex_vad_config_def ex_net_def
      int_of_size_t_2 max_speech_samples_def min_silence_samples_def int64_of_real_def
      kStateSize_def float32_values)

lemma ex_speech_then_speech:
  "accept_waveform ex_net
     ((ex_vad ex_vad_config)\<lparr>in_speech := True, speech_start_samples := 2, speech_buf := [1, 1]\<rparr>)
     [1, 1] =
   Inr ((ex_vad ex_vad_config)\<lparr>segments := [[1, 1, 1, 1]]\<rparr>)"
  by (simp add: accept_waveform_def infer_def Let_def ex_vad_def ex_vad_config_def ex_net_def
      finalize_segment_def int_of_size_t_2 max_speech_samples_def min_silence_samples_def
      int64_of_real_def kStateSize_def float32_values)





text \<open>
  The duration test is the \<^verbatim>\<open>float\<close> one. At 16 kHz a run of one window of 512 samples lasts
  0.032 s; \<^verbatim>\<open>0.032f\<close> is a little more than that, and the quotient of \<^verbatim>\<open>512.0f\<close> and
  \<^verbatim>\<open>16000.0f\<close> rounds to \<^verbatim>\<open>0.032f\<close>: the run is kept, although its exact duration is below
  the configured minimum.
\<close>

lemma finalize_segment_float_quotient:
  "real (length (replicate 512 (0 :: real))) / real_of_int (vc_sample_rate ex_16k_config)
     < min_speech_duration ex_16k_config \<and>
   run_duration ex_16k_config (replicate 512 0) = min_speech_duration ex_16k_config \<and>
   segments (finalize_segment
               ((ex_vad ex_16k_config)\<lparr>in_speech := True, speech_buf := replicate 512 0\<rparr>)) =
     [replicate 512 0]"
proof -
  have d: "float32 (float32 512 / float32 16000) = 8589935 / 268435456"
    by (simp add: float32_values)
  have n: "replicate 512 (0 :: real) \<noteq> []"
    by simp
  show ?thesis
    using n
    by (simp add: finalize_segment_def run_duration_def ex_16k_config_def ex_vad_def Let_def
        float32_values d)
qed



section \<open>Force-split at the maximum speech duration\<close>

lemma ex_tight_limits:
  "max_speech_samples ex_tight_config = 2"
  "run_duration ex_tight_config [1, 1] = 1 / 2"
  "min_speech_duration ex_tight_config = 5033165 / 8388608"
  "max_speech_duration ex_tight_config = 11744051 / 16777216"
  by (simp_all add: max_speech_samples_def run_duration_def ex_tight_config_def
      int64_of_real_def float32_values)
     (simp add: float32_eval)

lemma ex_tight_window:
  "accept_waveform ex_net (ex_vad ex_tight_config) [1, 1] = Inr (ex_vad ex_tight_config)"
  by (simp add: accept_waveform_def infer_def Let_def ex_vad_def ex_tight_config_def ex_net_def
      finalize_segment_def int_of_size_t_2 max_speech_samples_def int64_of_real_def
      kStateSize_def float32_values)
     (simp add: float32_eval)

text \<open>
  The sample counts are truncations of \<^verbatim>\<open>float\<close> products. \<^verbatim>\<open>0.0640625f\<close> is a little less
  than 0.0640625, so that its exact product with 16000 truncates to 1024; the product in
  \<^verbatim>\<open>float\<close> rounds to 1025, and that is the maximum the detector works with.
\<close>

lemma max_speech_samples_float_product:
  "int64_of_real (max_speech_duration ex_16k_config * real_of_int (vc_sample_rate ex_16k_config))
     = 1024 \<and>
   max_speech_samples ex_16k_config = 1025"
  by (simp add: max_speech_samples_def ex_16k_config_def int64_of_real_def float32_values)
     (simp add: float32_eval)

text \<open>
  A window classified as silence never force-splits: while the silence run is shorter than
  \<open>min_silence_samples\<close> the detector stays in speech and the queue is as it was, however
  large the counter of the speech run has become.
\<close>

lemma silence_window_keeps_run:
  assumes inf: "infer net v w = Inr (p, v1)"
    and silence: "p < threshold (vad_cfg v)"
    and speaking: "in_speech v"
    and short: "silence_samples v + window_size (vad_cfg v) < min_silence_samples (vad_cfg v)"
  shows "\<exists>v'. accept_waveform net v w = Inr v' \<and> in_speech v' \<and> segments v' = segments v \<and>
              speech_start_samples v' = speech_start_samples v + window_size (vad_cfg v)"
proof -
  note fr = infer_Inr [OF inf] and sz = infer_Inr_size [OF inf]
  define v2 where "v2 = v1\<lparr>silence_samples := silence_samples v1 + window_size (vad_cfg v),
                          speech_buf := speech_buf v1 @ w,
                          speech_start_samples := speech_start_samples v1 + window_size (vad_cfg v)\<rparr>"
  have "accept_waveform net v w =
          Inr (if silence_samples v2 \<ge> min_silence_samples (vad_cfg v)
               then finalize_segment v2 else v2)"
    using silence speaking fr unfolding v2_def
    by (simp add: accept_waveform_def [of net v w] sz inf Let_def)
  moreover have "silence_samples v2 < min_silence_samples (vad_cfg v)"
    using short fr by (simp add: v2_def)
  ultimately have "accept_waveform net v w = Inr v2" by simp
  then show ?thesis using fr speaking by (simp add: v2_def)
qed

text \<open>
  Claim C4, as stated, fails on the code in two ways. With four samples per second, windows
  of two samples and a maximum of one second (four samples), a speech window followed by a
  silence window brings the counter of the speech run to four: the call returns with the
  detector still in speech and nothing on the queue, since only a window classified as
  speech is checked against the maximum. With a minimum of \<^verbatim>\<open>0.6f\<close> s and a maximum of
  \<^verbatim>\<open>0.7f\<close> s (two samples after truncation), the first speech window reaches the maximum and
  the run of two samples, half a second, is discarded as too short, although the maximum is
  above the minimum.
\<close>

theorem force_split_counterexample:
  "vad_new ex_vad_config = Inr (ex_vad ex_vad_config) \<and>
   min_speech_duration ex_vad_config < max_speech_duration ex_vad_config \<and>
   max_speech_samples ex_vad_config = 4 \<and>
   vad_run ex_net (ex_vad ex_vad_config) [AcceptWaveform [1, 1], AcceptWaveform [0, 0]] =
     (ex_vad ex_vad_config)
       \<lparr>in_speech := True, speech_start_samples := 4, speech_buf := [1, 1, 0, 0],
         silence_samples := 2, segments := []\<rparr> \<and>
   vad_new ex_tight_config = Inr (ex_vad ex_tight_config) \<and>
   min_speech_duration ex_tight_config < max_speech_duration ex_tight_config \<and>
   max_speech_samples ex_tight_config = 2 \<and>
   vad_run ex_net (ex_vad ex_tight_config) [AcceptWaveform [1, 1]] =
     (ex_vad ex_tight_config)\<lparr>in_speech := False, segments := []\<rparr>"
proof -
  have "vad_run ex_net (ex_vad ex_vad_config) [AcceptWaveform [1, 1], AcceptWaveform [0, 0]] =
     (ex_vad ex_vad_config)
       \<lparr>in_speech := True, speech_start_samples := 4, speech_buf := [1, 1, 0, 0],
         silence_samples := 2, segments := []\<rparr>"
    by (simp add: ex_speech_window ex_speech_then_silence after_call_def) (simp add: ex_vad_def)
  moreover have "vad_run ex_net (ex_vad ex_tight_config) [AcceptWaveform [1, 1]] =
     (ex_vad ex_tight_config)\<lparr>in_speech := False, segments := []\<rparr>"
    by (simp add: ex_tight_window after_call_def) (simp add: ex_vad_def)
  moreover have "vad_new ex_tight_config = Inr (ex_vad ex_tight_config)"
    by (simp add: vad_new_def ex_tight_config_def ex_vad_def)
  moreover have "max_speech_samples ex_vad_config = 4"
    by (simp add: max_speech_samples_def ex_vad_config_def int64_of_real_def float32_values)
  moreover have "max_speech_samples ex_tight_config = 2"
    by (simp add: ex_tight_limits)
  moreover have "min_speech_duration ex_vad_config < max_speech_duration ex_vad_config"
    by (simp add: ex_vad_config_def)
  moreover have "min_speech_duration ex_tight_config < max_speech_duration ex_tight_config"
    by (simp add: ex_tight_limits)
  ultimately show ?thesis using ex_vad_new by simp
qed

text \<open>
  Claim C4, amended. Take a call of \<open>accept_waveform\<close> whose window has the configured size
  and is classified as speech (probability at least the threshold), and which brings the
  counter of the speech run, started afresh when the detector was not in speech, to
  \<open>max_speech_samples\<close> or more (the truncated \<^verbatim>\<open>float\<close> product of the maximum duration and
  the sample rate). The call returns with the state machine reset (not in speech, both
  counters zero, the accumulator empty), and the run accumulated so far, this window
  included, is appended to the queue as one segment exactly when it is not empty and its
  duration, the \<^verbatim>\<open>float\<close> quotient \<open>run_duration\<close>, is at least \<^verbatim>\<open>min_speech_duration\<close>;
  otherwise the queue is unchanged and the run is dropped.
\<close>

theorem accept_waveform_force_split:
  assumes inf: "infer net v w = Inr (p, v1)"
    and speech: "threshold (vad_cfg v) \<le> p"
    and reach: "max_speech_samples (vad_cfg v)
                  \<le> (if in_speech v then speech_start_samples v else 0) + window_size (vad_cfg v)"
  shows "\<exists>v'. accept_waveform net v w = Inr v' \<and> \<not> in_speech v' \<and>
           speech_start_samples v' = 0 \<and> silence_samples v' = 0 \<and> speech_buf v' = [] \<and>
           segments v' =
             (if speech_run v w = [] \<or>
                 run_duration (vad_cfg v) (speech_run v w) < min_speech_duration (vad_cfg v)
              then segments v else segments v @ [speech_run v w])"
  using accept_waveform_speech_max [OF inf speech reach] unfolding finalized_def by blast

theorem accept_waveform_force_split_witness:
  "infer ex_net
     ((ex_vad ex_vad_config)\<lparr>in_speech := True, speech_start_samples := 2, speech_buf := [1, 1]\<rparr>)
     [1, 1] =
     Inr (1, (ex_vad ex_vad_config)
               \<lparr>in_speech := True, speech_start_samples := 2, speech_buf := [1, 1]\<rparr>) \<and>
   threshold ex_vad_config \<le> 1 \<and>
   max_speech_samples ex_vad_config \<le> 2 + window_size ex_vad_config \<and>
   (\<exists>v'. accept_waveform ex_net
           ((ex_vad ex_vad_config)
              \<lparr>in_speech := True, speech_start_samples := 2, speech_buf := [1, 1]\<rparr>)
           [1, 1] = Inr v' \<and>
         \<not> in_speech v' \<and> speech_start_samples v' = 0 \<and> silence_samples v' = 0 \<and>
         speech_buf v' = [] \<and> segments v' = [[1, 1, 1, 1]])"
proof -
  let ?v = "(ex_vad ex_vad_config)
              \<lparr>in_speech := True, speech_start_samples := 2, speech_buf := [1, 1]\<rparr>"
  have cfg: "vad_cfg ?v = ex_vad_config" by (simp add: ex_vad_def)
  have h1: "infer ex_net ?v [1, 1] = Inr (1, ?v)"
    by (simp add: infer_def Let_def ex_vad_def ex_vad_config_def ex_net_def int_of_size_t_2
        kStateSize_def)
  have h2: "threshold (vad_cfg ?v) \<le> 1"
    by (simp add: cfg) (simp add: ex_vad_config_def)
  have h3: "max_speech_samples (vad_cfg ?v)
              \<le> (if in_speech ?v then speech_start_samples ?v else 0) + window_size (vad_cfg ?v)"
    by (simp add: cfg)
       (simp add: ex_vad_config_def max_speech_samples_def int64_of_real_def float32_values)
  have run: "speech_run ?v [1, 1] = [1, 1, 1, 1]"
    by (simp add: speech_run_def)
  have "\<not> (run_duration ex_vad_config [1, 1, 1, 1] < min_speech_duration ex_vad_config)"
    by (simp add: run_duration_def ex_vad_config_def float32_values)
  with accept_waveform_force_split [OF h1 h2 h3]
  have "\<exists>v'. accept_waveform ex_net ?v [1, 1] = Inr v' \<and>
         \<not> in_speech v' \<and> speech_start_samples v' = 0 \<and> silence_samples v' = 0 \<and>
         speech_buf v' = [] \<and> segments v' = [[1, 1, 1, 1]]"
    unfolding run cfg by (simp add: ex_vad_def)
  with h1 h2 h3 show ?thesis by (simp add: cfg)
qed

section \<open>Recognizer: a stream that cannot be created\<close>

lemma find_free_Some:
  "find_free slots = Some i \<Longrightarrow> i < length slots \<and> \<not> in_use (slots ! i)"
  by (induction slots arbitrary: i) (auto split: if_splits)

text \<open>
  Claim C6. A call of \<open>recognize\<close> with audio that takes the first free slot and for whose
  handle the library gives no stream returns the empty text and leaves the pool as it
  found it: the slot it marked is free again. (One caller at a time; what other threads
  see in between is outside this model.)
\<close>

theorem recognize_stream_failure:
  assumes "audio \<noteq> []" and "find_free slots = Some i"
    and "create_stream lib (handle (slots ! i)) = None"
  shows "recognize lib slots audio rate = Some ([], slots)"
proof -
  from assms(2) have i: "i < length slots" and free: "\<not> in_use (slots ! i)"
    using find_free_Some by blast+
  have restored: "(slots ! i)\<lparr>in_use := True, in_use := False\<rparr> = slots ! i"
    using free by simp
  show ?thesis
    using assms i restored by (simp add: recognize_def Let_def list_update_same_conv)
qed

theorem recognize_stream_failure_witness:
  "[0 :: real] \<noteq> [] \<and> find_free ex_slots = Some 1 \<and>
   create_stream ex_sherpa_null (handle (ex_slots ! 1)) = None \<and>
   recognize ex_sherpa_null ex_slots [0] 16000 = Some ([], ex_slots)"
proof -
  have h2: "find_free ex_slots = Some 1" by (simp add: ex_slots_def)
  have h3: "create_stream ex_sherpa_null (handle (ex_slots ! 1)) = None"
    by (simp add: ex_sherpa_null_def)
  have h1: "[0 :: real] \<noteq> []" by simp
  from recognize_stream_failure [OF h1 h2 h3, of 16000] h2 h3 show ?thesis by simp
qed

section \<open>Decoding an upload that is too long\<close>

text \<open>
  Claim C9. When the parser accepts the data as a mono file whose frame count is above
  \<open>48000 * 3600\<close>, \<open>decode_wav\<close> throws an \<^verbatim>\<open>AudioError\<close> and returns no samples: the
  error names the frame count (for an empty buffer, which no parser is asked about, the
  error is the one for empty data). The bound is a constant of the function; the
  configuration is not among its arguments.
\<close>

theorem decode_wav_too_long:
  assumes "drwav_init_memory data = Some wav" and "channels wav = 1"
    and "totalPCMFrameCount wav > 48000 * 3600"
  shows "decode_wav drwav_init_memory src_simple data target_rate =
           Inl (AudioError (if data = [] then EmptyAudioData
                            else TooLong (totalPCMFrameCount wav)))"
  using assms by (simp add: decode_wav_def Let_def)

theorem decode_wav_too_long_witness:
  "ex_drwav_init ''RIFF'' =
     Some \<lparr>channels = 1, sampleRate = 48000, totalPCMFrameCount = 172800001, pcm_frames = []\<rparr> \<and>
   (172800001 :: nat) > 48000 * 3600 \<and>
   decode_wav ex_drwav_init ex_src_simple ''RIFF'' 16000 = Inl (AudioError (TooLong 172800001))"
proof -
  let ?wav = "\<lparr>channels = 1, sampleRate = 48000, totalPCMFrameCount = 172800001,
               pcm_frames = []\<rparr>"
  have h1: "ex_drwav_init ''RIFF'' = Some ?wav" by (simp add: ex_drwav_init_def)
  have h2: "channels ?wav = 1" by simp
  have h3: "totalPCMFrameCount ?wav > 48000 * 3600" by simp
  from decode_wav_too_long
         [where drwav_init_memory = ex_drwav_init and data = "''RIFF''" and wav = ?wav
            and src_simple = ex_src_simple and target_rate = 16000, OF h1 h2 h3] h1
  show ?thesis by simp
qed

section \<open>The output buffer of the streaming resampler\<close>

lemma length_write_front: "length (write_front gen buf) = length buf"
  by (simp add: write_front_def)

lemma length_resize: "length (resize n xs) = n"
  by (simp add: resize_def)

lemma ex_resampler_new: "stream_resampler_new ex_samplerate 48000 16000 = Inr ex_resampler"
  by (simp add: stream_resampler_new_def ex_samplerate_def ex_resampler_def)

text \<open>
  Claim C7, as stated, fails on the code: the buffer is grown to \<^verbatim>\<open>lround\<close> of the scaled
  length plus 16, and rounding to nearest can be one below the ceiling. The resampler from
  48 kHz to 16 kHz, fresh from its constructor, is given one sample: the scaled length is
  \<open>1/3\<close>, its ceiling 1, and the call returns with a buffer of 16 samples, not 17.
\<close>

theorem process_output_buf_counterexample:
  "stream_resampler_new ex_samplerate 48000 16000 = Inr ex_resampler \<and>
   process ex_samplerate ex_resampler [0] =
     Inr (ex_resampler\<lparr>output_buf := replicate 16 0\<rparr>, []) \<and>
   int (length (replicate 16 (0 :: real)))
     < \<lceil>real (length [0 :: real]) * ratio ex_resampler\<rceil> + 16"
proof -
  have "needed (1 / 3) [0] = 16"
    by (simp add: needed_def lround_def size_t_of_int_def)
  then have "process ex_samplerate ex_resampler [0] =
     Inr (ex_resampler\<lparr>output_buf := replicate 16 0\<rparr>, [])"
    by (simp add: process_def Let_def ex_resampler_def ex_samplerate_def resize_def
        write_front_def)
  moreover have "\<lceil>real (length [0 :: real]) * ratio ex_resampler\<rceil> = 1"
    by (simp add: ex_resampler_def) linarith
  ultimately show ?thesis using ex_resampler_new by simp
qed

text \<open>
  Claim C7, amended. When \<open>process\<close> returns, the output buffer holds at least the number
  of samples the code computes as \<open>needed\<close>: \<^verbatim>\<open>lround\<close> of the input length times the ratio,
  plus 16, in \<^verbatim>\<open>size_t\<close>. For a ratio that is not negative and a size that fits \<^verbatim>\<open>size_t\<close>
  this is the rounded scaled length plus 16, hence at least its ceiling plus 15.
\<close>

theorem process_output_buf:
  assumes "process lib r input = Inr (r', out)"
  shows "needed (ratio r) input \<le> length (output_buf r') \<and>
         (0 \<le> ratio r \<and> lround (real (length input) * ratio r) + 16 < 2 ^ 64 \<longrightarrow>
            lround (real (length input) * ratio r) + 16 \<le> int (length (output_buf r')) \<and>
            \<lceil>real (length input) * ratio r\<rceil> + 15 \<le> int (length (output_buf r')))"
proof -
  define r1 where "r1 = (if length (output_buf r) < needed (ratio r) input
                then r\<lparr>output_buf := resize (needed (ratio r) input) (output_buf r)\<rparr>
                else r)"
  have len: "length (output_buf r') = length (output_buf r1)"
    using assms unfolding process_def Let_def r1_def [symmetric]
    by (auto split: if_splits simp: length_write_front)
  have big: "needed (ratio r) input \<le> length (output_buf r1)"
    by (simp add: r1_def length_resize)
  have "lround (real (length input) * ratio r) + 16 \<le> int (length (output_buf r1)) \<and>
            \<lceil>real (length input) * ratio r\<rceil> + 15 \<le> int (length (output_buf r1))"
    if nn: "0 \<le> ratio r" and small: "lround (real (length input) * ratio r) + 16 < 2 ^ 64"
  proof -
    let ?x = "real (length input) * ratio r"
    have x0: "0 \<le> ?x" using nn by simp
    then have l0: "0 \<le> lround ?x" by (simp add: lround_def)
    have "size_t_of_int (lround ?x) = nat (lround ?x)"
      using l0 small by (simp add: size_t_of_int_def)
    then have "needed (ratio r) input = nat (lround ?x) + 16"
      using l0 small unfolding needed_def
      by (simp add: nat_less_iff nat_add_distrib)
    with big have a: "lround ?x + 16 \<le> int (length (output_buf r1))" using l0 by linarith
    have "\<lceil>?x\<rceil> - 1 \<le> lround ?x" using x0 unfolding lround_def by simp linarith
    with a show ?thesis by linarith
  qed
  with len big show ?thesis by simp
qed

theorem process_output_buf_witness:
  "process ex_samplerate ex_resampler [0, 0] =
     Inr (ex_resampler\<lparr>output_buf := replicate 17 0\<rparr>, []) \<and>
   needed (ratio ex_resampler) [0, 0] \<le> 17 \<and>
   0 \<le> ratio ex_resampler \<and>
   lround (real (length [0, 0 :: real]) * ratio ex_resampler) + 16 < 2 ^ 64 \<and>
   lround (real (length [0, 0 :: real]) * ratio ex_resampler) + 16 \<le> 17 \<and>
   \<lceil>real (length [0, 0 :: real]) * ratio ex_resampler\<rceil> + 15 \<le> 17"
proof -
  have l: "lround (real (length [0, 0 :: real]) * ratio ex_resampler) = 1"
    by (simp add: lround_def ex_resampler_def)
  have "needed (1 / 3) [0, 0] = 17"
    by (simp add: needed_def lround_def size_t_of_int_def)
  then have h: "process ex_samplerate ex_resampler [0, 0] =
     Inr (ex_resampler\<lparr>output_buf := replicate 17 0\<rparr>, [])"
    by (simp add: process_def Let_def ex_resampler_def ex_samplerate_def resize_def
        write_front_def)
  have nn: "0 \<le> ratio ex_resampler" by (simp add: ex_resampler_def)
  from process_output_buf [OF h] nn l h show ?thesis by simp
qed

section \<open>The session: every call returns and keeps the invariant\<close>

lemma int_of_size_t_small: "int n < 2 ^ 31 \<Longrightarrow> int_of_size_t n = int n"
  by (simp add: int_of_size_t_def)

lemma size_t_of_int_small: "0 \<le> i \<Longrightarrow> i < 2 ^ 31 \<Longrightarrow> size_t_of_int i = nat i"
  by (simp add: size_t_of_int_def)

lemma size_t_minus_small: "b \<le> a \<Longrightarrow> int a < 2 ^ 31 \<Longrightarrow> size_t_minus a b = a - b"
  by (simp add: size_t_minus_def nat_diff_distrib' of_nat_diff)

lemma accept_waveform_returns:
  assumes "int_of_size_t (length w) = window_size (vad_cfg v)"
  shows "\<exists>v'. accept_waveform net v w = Inr v' \<and> vad_cfg v' = vad_cfg v"
proof -
  obtain p v1 where inf: "infer net v w = Inr (p, v1)"
    using assms by (simp add: infer_def Let_def)
  have "\<exists>v'. accept_waveform net v w = Inr v'"
    by (simp add: accept_waveform_def [of net v w] assms inf Let_def)
  then show ?thesis using accept_waveform_cfg by blast
qed


lemma on_audio_windows_returns:
  assumes "session_inv cfg s"
  shows "\<exists>s'. on_audio_windows net cfg chunk offset s = Some (Inr s') \<and> session_inv cfg s' \<and>
              s' = s\<lparr>detector := detector s', pending := pending s'\<rparr>"
  using assms
proof (induction "length chunk - offset" arbitrary: offset s rule: less_induct)
  case less
  note inv = less.prems
  let ?W = "vad_window_size cfg"
  from inv have W: "0 < ?W" "?W < 2 ^ 31" and p: "int (length (pending s)) < ?W"
    and cfgW: "window_size (vad_cfg (detector s)) = ?W"
    by (simp_all add: session_inv_def)
  show ?case
  proof (cases "offset < length chunk")
    case False
    then show ?thesis using inv by (simp add: on_audio_windows.simps [of net cfg chunk offset s])
  next
    case True
    define to_copy where
      "to_copy = min (size_t_minus (size_t_of_int ?W) (length (pending s))) (length chunk - offset)"
    define s1 where "s1 = s\<lparr>pending := pending s @ take to_copy (drop offset chunk)\<rparr>"
    have rem: "size_t_minus (size_t_of_int ?W) (length (pending s)) = nat ?W - length (pending s)"
      using W p by (simp add: size_t_of_int_small size_t_minus_small)
    have tc: "0 < to_copy" "to_copy \<le> length chunk - offset"
      "length (pending s) + to_copy \<le> nat ?W"
      using True W p unfolding to_copy_def rem by auto
    have len1: "length (pending s1) = length (pending s) + to_copy"
      using tc by (simp add: s1_def)
    have dec: "length chunk - (offset + to_copy) < length chunk - offset"
      using tc True by simp
    have unfold: "on_audio_windows net cfg chunk offset s =
       (if int_of_size_t (length (pending s1)) = ?W then
             (case accept_waveform net (detector s1) (pending s1) of
                Inl (e, v) \<Rightarrow> Some (Inl (e, s1\<lparr>detector := v\<rparr>))
              | Inr v \<Rightarrow>
                  on_audio_windows net cfg chunk (offset + to_copy) (s1\<lparr>detector := v, pending := []\<rparr>))
           else on_audio_windows net cfg chunk (offset + to_copy) s1)"
      using True unfolding s1_def to_copy_def
      by (simp add: on_audio_windows.simps [of net cfg chunk offset s] Let_def)
    have small: "int (length (pending s1)) < 2 ^ 31"
      using len1 tc W by linarith
    show ?thesis
    proof (cases "length (pending s1) = nat ?W")
      case full: True
      then have "int_of_size_t (length (pending s1)) = window_size (vad_cfg (detector s1))"
        using small W cfgW by (simp add: int_of_size_t_small s1_def)
      from accept_waveform_returns [OF this, of net] obtain v where
        v: "accept_waveform net (detector s1) (pending s1) = Inr v"
        and vc: "vad_cfg v = vad_cfg (detector s1)" by blast
      have inv': "session_inv cfg (s1\<lparr>detector := v, pending := []\<rparr>)"
        using W cfgW vc by (simp add: session_inv_def s1_def)
      from less.hyps [OF dec inv'] obtain s' where
        s': "on_audio_windows net cfg chunk (offset + to_copy) (s1\<lparr>detector := v, pending := []\<rparr>)
               = Some (Inr s')" "session_inv cfg s'"
        "s' = (s1\<lparr>detector := v, pending := []\<rparr>)\<lparr>detector := detector s', pending := pending s'\<rparr>"
        by blast
      have "on_audio_windows net cfg chunk offset s = Some (Inr s')"
        using full small W v s'(1) by (simp add: unfold int_of_size_t_small)
      moreover have "s' = s\<lparr>detector := detector s', pending := pending s'\<rparr>"
        using s'(3) by (simp add: s1_def)
      ultimately show ?thesis using s'(2) by blast
    next
      case part: False
      then have lt: "int (length (pending s1)) < ?W" using len1 tc W by linarith
      have inv': "session_inv cfg s1"
        using W cfgW lt by (simp add: session_inv_def s1_def)
      from less.hyps [OF dec inv'] obtain s' where
        s': "on_audio_windows net cfg chunk (offset + to_copy) s1 = Some (Inr s')"
        "session_inv cfg s'"
        "s' = s1\<lparr>detector := detector s', pending := pending s'\<rparr>"
        by blast
      have "on_audio_windows net cfg chunk offset s = Some (Inr s')"
        using lt small s'(1) by (simp add: unfold int_of_size_t_small)
      moreover have "s' = s\<lparr>detector := detector s', pending := pending s'\<rparr>"
        using s'(3) by (simp add: s1_def)
      ultimately show ?thesis using s'(2) by blast
    qed
  qed
qed


lemma process_segment_frame:
  "detector (process_segment recog cfg seg s) = detector s \<and>
   pending (process_segment recog cfg seg s) = pending s \<and>
   max_duration_exceeded (process_segment recog cfg seg s) = max_duration_exceeded s \<and>
   (\<exists>fs. out_messages (process_segment recog cfg seg s) = out_messages s @ fs \<and> Done \<notin> set fs)"
  by (simp add: process_segment_def Let_def record_metric_def write_final_def)

lemma process_vad_segments_frame:
  "pending (process_vad_segments recog cfg s) = pending s \<and>
   max_duration_exceeded (process_vad_segments recog cfg s) = max_duration_exceeded s \<and>
   vad_cfg (detector (process_vad_segments recog cfg s)) = vad_cfg (detector s) \<and>
   (\<exists>fs. out_messages (process_vad_segments recog cfg s) = out_messages s @ fs \<and> Done \<notin> set fs)"
proof (induction recog cfg s rule: process_vad_segments.induct)
  case (1 recog cfg s)
  show ?case
  proof (cases "vad_empty (detector s)")
    case True
    then show ?thesis by (simp add: process_vad_segments.simps [of recog cfg s])
  next
    case False
    let ?s1 = "(process_segment recog cfg (vad_front (detector s)) s)
                 \<lparr>detector := vad_pop (detector s)\<rparr>"
    have step: "process_vad_segments recog cfg s = process_vad_segments recog cfg ?s1"
      using False by (simp add: process_vad_segments.simps [of recog cfg s])
    from process_segment_frame [of recog cfg "vad_front (detector s)" s]
    obtain fs1 where one:
      "pending ?s1 = pending s" "max_duration_exceeded ?s1 = max_duration_exceeded s"
      "out_messages ?s1 = out_messages s @ fs1" "Done \<notin> set fs1"
      by auto
    have cfg1: "vad_cfg (detector ?s1) = vad_cfg (detector s)"
      by (simp add: vad_pop_def)
    from "1.IH" [OF False] obtain fs2 where rest:
      "pending (process_vad_segments recog cfg ?s1) = pending ?s1"
      "max_duration_exceeded (process_vad_segments recog cfg ?s1) = max_duration_exceeded ?s1"
      "vad_cfg (detector (process_vad_segments recog cfg ?s1)) = vad_cfg (detector ?s1)"
      "out_messages (process_vad_segments recog cfg ?s1) = out_messages ?s1 @ fs2"
      "Done \<notin> set fs2"
      by blast
    have A: "pending (process_vad_segments recog cfg ?s1) = pending s"
      using rest(1) one(1) by (rule trans)
    have B: "max_duration_exceeded (process_vad_segments recog cfg ?s1) = max_duration_exceeded s"
      using rest(2) one(2) by (rule trans)
    have C: "vad_cfg (detector (process_vad_segments recog cfg ?s1)) = vad_cfg (detector s)"
      using rest(3) cfg1 by (rule trans)
    have D: "out_messages (process_vad_segments recog cfg ?s1) = out_messages s @ (fs1 @ fs2)"
      by (simp only: rest(4) one(3) append_assoc)
    have E: "Done \<notin> set (fs1 @ fs2)"
      using one(4) rest(5) by simp
    show ?thesis unfolding step using A B C D E by blast
  qed
qed

lemma finalize_session_frame:
  "out_messages (finalize_session cfg s) = out_messages s @ [Done] \<and>
   pending (finalize_session cfg s) = [] \<and>
   \<not> max_duration_exceeded (finalize_session cfg s) \<and>
   vad_cfg (detector (finalize_session cfg s)) = vad_cfg (detector s)"
  by (simp add: finalize_session_def Let_def reset_session_def write_done_def record_metric_def
      reset_def)

lemma flush_pending_returns:
  assumes "session_inv cfg s"
  shows "\<exists>s'. flush_pending net cfg s = Inr s' \<and> pending s' = [] \<and>
              out_messages s' = out_messages s \<and>
              max_duration_exceeded s' = max_duration_exceeded s \<and>
              vad_cfg (detector s') = vad_cfg (detector s)"
proof (cases "pending s = []")
  case True
  then show ?thesis by (simp add: flush_pending_def flush_cfg)
next
  case False
  let ?W = "vad_window_size cfg"
  from assms have W: "0 < ?W" "?W < 2 ^ 31"
    and cfgW: "window_size (vad_cfg (detector s)) = ?W"
    by (simp_all add: session_inv_def)
  let ?p = "resize (size_t_of_int ?W) (pending s)"
  have "length ?p = nat ?W" using W by (simp add: length_resize size_t_of_int_small)
  then have "int_of_size_t (length ?p) = window_size (vad_cfg (detector s))"
    using W cfgW by (simp add: int_of_size_t_small)
  from accept_waveform_returns [OF this, of net] obtain v where
    v: "accept_waveform net (detector s) ?p = Inr v" and vc: "vad_cfg v = vad_cfg (detector s)"
    by blast
  show ?thesis using False v vc by (simp add: flush_pending_def Let_def flush_cfg)
qed


lemma session_inv_cong:
  "session_inv cfg s \<Longrightarrow> pending s' = pending s \<Longrightarrow>
   vad_cfg (detector s') = vad_cfg (detector s) \<Longrightarrow> session_inv cfg s'"
  by (simp add: session_inv_def)

lemma session_inv_empty:
  "session_inv cfg s \<Longrightarrow> pending s' = [] \<Longrightarrow>
   vad_cfg (detector s') = vad_cfg (detector s) \<Longrightarrow> session_inv cfg s'"
  by (simp add: session_inv_def)

lemma on_audio_exceeded:
  "max_duration_exceeded s \<Longrightarrow>
   on_audio net recog cfg s chunk = Some (Inr (s\<lparr>out_messages := []\<rparr>))"
  by (simp add: on_audio_def begin_messages_def Let_def)

lemma on_recognize_exceeded:
  "max_duration_exceeded s \<Longrightarrow>
   on_recognize net recog cfg s =
     Inr (s\<lparr>out_messages := [], max_duration_exceeded := False\<rparr>)"
  by (simp add: on_recognize_def begin_messages_def Let_def)

lemma on_audio_returns:
  assumes inv: "session_inv cfg s" and nf: "\<not> max_duration_exceeded s"
  shows "\<exists>s'. on_audio net recog cfg s chunk = Some (Inr s') \<and> session_inv cfg s' \<and>
     ((\<not> max_duration_exceeded s' \<and> Done \<notin> set (out_messages s')) \<or>
      (max_duration_exceeded s' \<and> (\<exists>pre. out_messages s' = pre @ [Done] \<and> Done \<notin> set pre)))"
proof -
  define s0 where "s0 = begin_messages s"
  define s1 where "s1 = (if \<not> session_active s0
                  then record_metric SessionStarted (s0\<lparr>session_active := True\<rparr>)
                  else s0)"
  define s2 where "s2 = s1\<lparr>chunks := chunks s1 + 1,
                    total_samples_received := total_samples_received s1 + length chunk,
                    bytes := bytes s1 + length chunk * 4\<rparr>"
  define s3 where "s3 = record_metric (RecordAudioLevel (compute_rms chunk)) s2"
  have s3: "pending s3 = pending s" "detector s3 = detector s" "out_messages s3 = []"
    "\<not> max_duration_exceeded s3"
    using nf by (simp_all add: s3_def s2_def s1_def s0_def begin_messages_def record_metric_def)
  have inv3: "session_inv cfg s3"
    using inv s3(1,2) by (simp add: session_inv_def)
  from on_audio_windows_returns [OF inv3, of net chunk 0] obtain s4 where
    s4: "on_audio_windows net cfg chunk 0 s3 = Some (Inr s4)" "session_inv cfg s4"
    "s4 = s3\<lparr>detector := detector s4, pending := pending s4\<rparr>"
    by blast
  have s4': "out_messages s4 = []" "\<not> max_duration_exceeded s4"
    using s3(3,4) by (subst s4(3), simp)+
  define s5 where "s5 = process_vad_segments recog cfg s4"
  from process_vad_segments_frame [of recog cfg s4] obtain fs where
    s5: "pending s5 = pending s4" "max_duration_exceeded s5 = max_duration_exceeded s4"
    "vad_cfg (detector s5) = vad_cfg (detector s4)" "out_messages s5 = out_messages s4 @ fs"
    "Done \<notin> set fs"
    unfolding s5_def by blast
  define s6 where "s6 = (if out_messages s5 = [] then
                           write_interim
                             (real (total_samples_received s5) / real_of_int (sample_rate cfg))
                             (compute_rms chunk) (is_speech (detector s5)) s5
                         else s5)"
  have s6: "pending s6 = pending s5" "detector s6 = detector s5"
    "max_duration_exceeded s6 = max_duration_exceeded s5" "Done \<notin> set (out_messages s6)"
    using s5(4,5) s4'(1) by (simp_all add: s6_def write_interim_def)
  have inv6: "session_inv cfg s6"
    using s4(2) s5(1,3) s6(1,2) by (simp add: session_inv_def)
  have nf6: "\<not> max_duration_exceeded s6"
    using s6(3) s5(2) s4'(2) by simp
  have unfold: "on_audio net recog cfg s chunk =
     (if real (total_samples_received s6) / real_of_int (sample_rate cfg) > max_audio_sec cfg then
        (case flush_pending net cfg s6 of
           Inl e \<Rightarrow> Some (Inl e)
         | Inr s7 \<Rightarrow>
             Some (Inr ((finalize_session cfg (process_vad_segments recog cfg s7))
                          \<lparr>max_duration_exceeded := True\<rparr>)))
      else Some (Inr s6))"
    using nf s4(1)
    unfolding on_audio_def Let_def s0_def [symmetric] s1_def [symmetric] s2_def [symmetric]
      s3_def [symmetric]
    by (simp add: s0_def begin_messages_def s5_def s6_def)
  show ?thesis
  proof (cases "real (total_samples_received s6) / real_of_int (sample_rate cfg) > max_audio_sec cfg")
    case False
    then show ?thesis using unfold inv6 nf6 s6(4) by simp
  next
    case True
    from flush_pending_returns [OF inv6, of net] obtain s7 where
      s7: "flush_pending net cfg s6 = Inr s7" "pending s7 = []"
      "out_messages s7 = out_messages s6" "vad_cfg (detector s7) = vad_cfg (detector s6)"
      by blast
    define s8 where "s8 = process_vad_segments recog cfg s7"
    from process_vad_segments_frame [of recog cfg s7] obtain fs2 where
      s8: "vad_cfg (detector s8) = vad_cfg (detector s7)" "out_messages s8 = out_messages s7 @ fs2"
      "Done \<notin> set fs2"
      unfolding s8_def by blast
    define s9 where "s9 = (finalize_session cfg s8)\<lparr>max_duration_exceeded := True\<rparr>"
    have s9: "out_messages s9 = (out_messages s6 @ fs2) @ [Done]" "pending s9 = []"
      "max_duration_exceeded s9" "vad_cfg (detector s9) = vad_cfg (detector s6)"
      using finalize_session_frame [of cfg s8] s8 s7 by (simp_all add: s9_def)
    have "on_audio net recog cfg s chunk = Some (Inr s9)"
      using True s7(1) by (simp add: unfold s9_def s8_def)
    moreover have "session_inv cfg s9"
      using inv6 s9(2,4) by (rule session_inv_empty)
    moreover have "Done \<notin> set (out_messages s6 @ fs2)"
      using s6(4) s8(3) by simp
    ultimately show ?thesis using s9(1,3) by blast
  qed
qed

lemma on_recognize_returns:
  assumes inv: "session_inv cfg s" and nf: "\<not> max_duration_exceeded s"
  shows "\<exists>s' pre. on_recognize net recog cfg s = Inr s' \<and> session_inv cfg s' \<and>
           \<not> max_duration_exceeded s' \<and> out_messages s' = pre @ [Done] \<and> Done \<notin> set pre"
proof -
  define s0 where "s0 = begin_messages s"
  have s0: "pending s0 = pending s" "detector s0 = detector s" "out_messages s0 = []"
    "\<not> max_duration_exceeded s0"
    using nf by (simp_all add: s0_def begin_messages_def)
  have inv0: "session_inv cfg s0"
    using inv s0(1,2) by (simp add: session_inv_def)
  from flush_pending_returns [OF inv0, of net] obtain s1 where
    s1: "flush_pending net cfg s0 = Inr s1" "pending s1 = []"
    "out_messages s1 = out_messages s0" "vad_cfg (detector s1) = vad_cfg (detector s0)"
    by blast
  define s2 where "s2 = process_vad_segments recog cfg s1"
  from process_vad_segments_frame [of recog cfg s1] obtain fs where
    s2: "vad_cfg (detector s2) = vad_cfg (detector s1)" "out_messages s2 = out_messages s1 @ fs"
    "Done \<notin> set fs"
    unfolding s2_def by blast
  define s3 where "s3 = finalize_session cfg s2"
  have s3: "out_messages s3 = fs @ [Done]" "pending s3 = []"
    "\<not> max_duration_exceeded s3" "vad_cfg (detector s3) = vad_cfg (detector s0)"
    using finalize_session_frame [of cfg s2] s2 s1 s0(3) by (simp_all add: s3_def)
  have "on_recognize net recog cfg s = Inr s3"
    using nf s1(1) unfolding on_recognize_def Let_def s0_def [symmetric]
    by (simp add: s0(4) s3_def s2_def)
  moreover have "session_inv cfg s3"
    using inv0 s3(2,4) by (rule session_inv_empty)
  ultimately show ?thesis using s3(1,3) s2(3) by blast
qed


lemma reset_cfg: "vad_cfg (reset v) = vad_cfg v"
  by (simp add: reset_def)

lemma on_reset_inv: "session_inv cfg s \<Longrightarrow> session_inv cfg (on_reset s)"
  by (simp add: session_inv_def on_reset_def Let_def reset_session_def record_metric_def reset_cfg)

lemma on_close_inv: "session_inv cfg s \<Longrightarrow> session_inv cfg (on_close s)"
  by (simp add: session_inv_def on_close_def record_metric_def)

lemma session_step_returns:
  assumes "session_inv cfg s"
  shows "\<exists>s'. session_step net recog cfg s call = Some (Inr s') \<and> session_inv cfg s'"
proof (cases call)
  case (OnAudio chunk)
  show ?thesis
  proof (cases "max_duration_exceeded s")
    case True
    moreover have "session_inv cfg (s\<lparr>out_messages := []\<rparr>)"
      using assms by (simp add: session_inv_def)
    ultimately show ?thesis using OnAudio by (simp add: session_step_def on_audio_exceeded)
  next
    case False
    from on_audio_returns [OF assms False, of net recog chunk]
    show ?thesis using OnAudio by (auto simp: session_step_def)
  qed
next
  case OnRecognize
  show ?thesis
  proof (cases "max_duration_exceeded s")
    case True
    moreover have "session_inv cfg (s\<lparr>out_messages := [], max_duration_exceeded := False\<rparr>)"
      using assms by (simp add: session_inv_def)
    ultimately show ?thesis using OnRecognize by (simp add: session_step_def on_recognize_exceeded)
  next
    case False
    from on_recognize_returns [OF assms False, of net recog]
    show ?thesis using OnRecognize by (auto simp: session_step_def)
  qed
next
  case OnReset
  then show ?thesis using assms by (simp add: session_step_def on_reset_inv)
next
  case OnClose
  then show ?thesis using assms by (simp add: session_step_def on_close_inv)
qed

lemma run_calls_returns:
  "session_inv cfg s \<Longrightarrow>
   \<exists>s' ms. run_calls net recog cfg s calls = Some (Inr (s', ms)) \<and> session_inv cfg s'"
proof (induction calls arbitrary: s)
  case Nil
  then show ?case by simp
next
  case (Cons call calls)
  from session_step_returns [OF Cons.prems, of net recog call] obtain s1 where
    s1: "session_step net recog cfg s call = Some (Inr s1)" "session_inv cfg s1"
    by blast
  from Cons.IH [OF s1(2)] obtain s2 ms where
    "run_calls net recog cfg s1 calls = Some (Inr (s2, ms))" "session_inv cfg s2"
    by blast
  then show ?case using s1(1) by simp
qed

lemma session_new_inv:
  assumes "session_new vc cfg = Inr s0" and "window_size vc = vad_window_size cfg"
    and "vad_window_size cfg < 2 ^ 31"
  shows "session_inv cfg s0 \<and> \<not> max_duration_exceeded s0"
proof -
  from assms(1) obtain v where v: "vad_new vc = Inr v"
    and s0: "s0 = reset_session
                 \<lparr>detector = v, pending = [], out_messages = [], has_first_result = False,
                  segments_count = 0, silence_segments = 0, audio_samples = 0,
                  total_samples_received = 0, session_active = False,
                  max_duration_exceeded = False, chunks = 0, bytes = 0, metrics = []\<rparr>"
    by (auto simp: session_new_def split: sum.splits)
  from v have "vad_cfg v = vc" "0 < window_size vc"
    by (auto simp: vad_new_def split: if_splits)
  then show ?thesis using assms(2,3) by (simp add: s0 session_inv_def reset_session_def)
qed

lemma run_calls_exceeded:
  "max_duration_exceeded s \<Longrightarrow>
   run_calls net recog cfg s (map OnAudio chunk_list @ [OnRecognize]) =
     Some (Inr (s\<lparr>out_messages := [], max_duration_exceeded := False\<rparr>, []))"
proof (induction chunk_list arbitrary: s)
  case Nil
  then show ?case
    by (simp add: session_step_def on_recognize_exceeded returned_def current_messages_def)
next
  case (Cons chunk chunk_list)
  have "max_duration_exceeded (s\<lparr>out_messages := []\<rparr>)" using Cons.prems by simp
  from Cons.IH [OF this] Cons.prems show ?case
    by (simp add: session_step_def on_audio_exceeded returned_def current_messages_def)
qed

lemma run_calls_done:
  "session_inv cfg s \<Longrightarrow> \<not> max_duration_exceeded s \<Longrightarrow>
   \<exists>s' pre. run_calls net recog cfg s (map OnAudio chunk_list @ [OnRecognize]) =
              Some (Inr (s', pre @ [Done])) \<and> Done \<notin> set pre"
proof (induction chunk_list arbitrary: s)
  case Nil
  from on_recognize_returns [OF Nil.prems, of net recog] obtain s' pre where
    "on_recognize net recog cfg s = Inr s'" "out_messages s' = pre @ [Done]" "Done \<notin> set pre"
    by blast
  then show ?case
    by (simp add: session_step_def returned_def current_messages_def)
next
  case (Cons chunk chunk_list)
  from on_audio_returns [OF Cons.prems, of net recog chunk] obtain s1 where
    s1: "on_audio net recog cfg s chunk = Some (Inr s1)" "session_inv cfg s1"
    and alt: "(\<not> max_duration_exceeded s1 \<and> Done \<notin> set (out_messages s1)) \<or>
      (max_duration_exceeded s1 \<and> (\<exists>pre. out_messages s1 = pre @ [Done] \<and> Done \<notin> set pre))"
    by blast
  from alt show ?case
  proof
    assume a: "\<not> max_duration_exceeded s1 \<and> Done \<notin> set (out_messages s1)"
    from Cons.IH [OF s1(2)] a obtain s' pre where
      r: "run_calls net recog cfg s1 (map OnAudio chunk_list @ [OnRecognize]) =
              Some (Inr (s', pre @ [Done]))" "Done \<notin> set pre"
      by blast
    have "run_calls net recog cfg s (map OnAudio (chunk # chunk_list) @ [OnRecognize]) =
            Some (Inr (s', (out_messages s1 @ pre) @ [Done]))"
      using s1(1) r(1) by (simp add: session_step_def returned_def current_messages_def)
    moreover have "Done \<notin> set (out_messages s1 @ pre)" using a r(2) by simp
    ultimately show ?thesis by blast
  next
    assume b: "max_duration_exceeded s1 \<and>
               (\<exists>pre. out_messages s1 = pre @ [Done] \<and> Done \<notin> set pre)"
    then obtain pre where pre: "out_messages s1 = pre @ [Done]" "Done \<notin> set pre" by blast
    from b have "max_duration_exceeded s1" by simp
    from run_calls_exceeded [OF this, of net recog cfg chunk_list]
    have "run_calls net recog cfg s (map OnAudio (chunk # chunk_list) @ [OnRecognize]) =
            Some (Inr (s1\<lparr>out_messages := [], max_duration_exceeded := False\<rparr>, pre @ [Done]))"
      using s1(1) pre(1) by (simp add: session_step_def returned_def current_messages_def)
    then show ?thesis using pre(2) by blast
  qed
qed

subsection \<open>The small session, evaluated\<close>

lemma ex_server_vad_config: "server_vad_config ex_config = ex_vad_config"
  by (simp add: server_vad_config_def ex_config_def ex_vad_config_def)

lemma ex_session_new: "session_new ex_vad_config ex_config = Inr ex_session"
  by (simp add: session_new_def ex_vad_new reset_session_def ex_session_def)

lemma ex_window_size: "window_size ex_vad_config = vad_window_size ex_config"
  by (simp add: ex_vad_config_def ex_config_def)

lemma ex_window_range: "vad_window_size ex_config < 2 ^ 31"
  by (simp add: ex_config_def)

lemma ex_vad_sel:
  "vad_cfg (ex_vad c) = c" "segments (ex_vad c) = []" "in_speech (ex_vad c) = False"
  "speech_buf (ex_vad c) = []" "silence_samples (ex_vad c) = 0"
  "speech_start_samples (ex_vad c) = 0"
  by (simp_all add: ex_vad_def)

lemma ex_vad_config_sel:
  "threshold ex_vad_config = 1 / 2" "min_silence_duration ex_vad_config = 10"
  "min_speech_duration ex_vad_config = 1 / 2" "max_speech_duration ex_vad_config = 1"
  "vc_sample_rate ex_vad_config = 4" "window_size ex_vad_config = 2"
  "context_size ex_vad_config = 0"
  by (simp_all add: ex_vad_config_def)

lemma ex_padded_window:
  "accept_waveform ex_net
     ((ex_vad ex_vad_config)\<lparr>in_speech := True, speech_start_samples := 2, speech_buf := [1, 1]\<rparr>)
     [1, 0] =
   Inr ((ex_vad ex_vad_config)
          \<lparr>in_speech := True, speech_start_samples := 4, speech_buf := [1, 1, 1, 0],
            silence_samples := 2\<rparr>)"
  by (simp add: accept_waveform_def infer_def Let_def ex_vad_def ex_vad_config_def ex_net_def
      int_of_size_t_2 max_speech_samples_def min_silence_samples_def int64_of_real_def
      kStateSize_def float32_values)

lemma ex_idle_window:
  "accept_waveform ex_net ((ex_vad ex_vad_config)\<lparr>segments := []\<rparr>) [1, 0] =
     Inr ((ex_vad ex_vad_config)\<lparr>segments := []\<rparr>)"
  by (simp add: accept_waveform_def infer_def Let_def ex_vad_def ex_vad_config_def ex_net_def
      int_of_size_t_2 kStateSize_def)

lemmas eval_facts =
  on_audio_windows.simps process_vad_segments.simps ex_config_def ex_session_def
  size_t_minus_def size_t_of_int_def int_of_size_t_def session_step_def on_audio_def
  on_recognize_def on_reset_def on_close_def begin_messages_def record_metric_def
  compute_rms_def Let_def write_interim_def write_final_def write_done_def is_speech_def
  flush_pending_def finalize_session_def reset_session_def returned_def current_messages_def
  process_segment_def vad_empty_def vad_front_def vad_pop_def resize_def flush_def
  finalize_segment_def reset_def ex_recognizer_def ex_speech_window ex_speech_then_speech
  ex_padded_window ex_idle_window ex_vad_sel ex_vad_config_sel float32_values

lemma ex_auto_finalize:
  "on_audio ex_net ex_recognizer ex_config ex_session [1, 1, 1, 1, 1] =
     Some (Inr ex_exceeded_session)"
  by (simp add: eval_facts ex_exceeded_session_def split del: if_split)
     (simp add: ex_vad_def ex_vad_config_def)

subsection \<open>The claims about the session\<close>

text \<open>
  Claim C2. Take a session whose constructor returned, for a detector configured with the
  window size of the session's configuration (as the server does), that size being a C
  \<^verbatim>\<open>int\<close>. Every sequence of public calls (\<open>on_audio\<close> with chunks of any length,
  \<open>on_recognize\<close>, \<open>on_reset\<close>, \<open>on_close\<close>) runs to its end, no call throwing or looping,
  and leaves fewer pending samples than a window holds. Since every prefix of a sequence
  is a sequence, this holds after each call.
\<close>

theorem pending_below_window:
  assumes "session_new vc cfg = Inr s0" and "window_size vc = vad_window_size cfg"
    and "vad_window_size cfg < 2 ^ 31"
  shows "\<exists>s ms. run_calls net recog cfg s0 calls = Some (Inr (s, ms)) \<and>
                 int (length (pending s)) < vad_window_size cfg"
proof -
  from session_new_inv [OF assms] have "session_inv cfg s0" by simp
  from run_calls_returns [OF this, of net recog calls] show ?thesis
    by (auto simp: session_inv_def)
qed

theorem pending_below_window_witness:
  "session_new ex_vad_config ex_config = Inr ex_session \<and>
   window_size ex_vad_config = vad_window_size ex_config \<and>
   vad_window_size ex_config < 2 ^ 31 \<and>
   pending_of (run_calls ex_net ex_recognizer ex_config ex_session
                 [OnAudio [1, 1, 1], OnReset, OnAudio [1], OnClose]) = Some [1] \<and>
   int (length [1 :: real]) < vad_window_size ex_config"
proof -
  let ?calls = "[OnAudio [1, 1, 1], OnReset, OnAudio [1], OnClose]"
  from pending_below_window [OF ex_session_new ex_window_size ex_window_range,
      of ex_net ex_recognizer ?calls]
  obtain s ms where
    run: "run_calls ex_net ex_recognizer ex_config ex_session ?calls = Some (Inr (s, ms))"
    and short: "int (length (pending s)) < vad_window_size ex_config"
    by blast
  have eval: "pending_of (run_calls ex_net ex_recognizer ex_config ex_session ?calls) = Some [1]"
    by (simp add: eval_facts pending_of_def split del: if_split)
  with run have "pending s = [1]" by (simp add: pending_of_def)
  with short eval ex_session_new ex_window_size ex_window_range show ?thesis by simp
qed

text \<open>
  Claim C1. For a session as in claim C2, fresh from its constructor, any sequence of
  \<open>on_audio\<close> calls followed by one \<open>on_recognize\<close> runs to its end, and the messages
  the calls return, put together in order, end with \<open>Done\<close> and contain \<open>Done\<close> once:
  it comes from \<open>on_recognize\<close>, or from the \<open>on_audio\<close> call that went over the
  duration cap, after which the remaining calls return nothing.
\<close>

theorem done_once_at_the_end:
  assumes "session_new vc cfg = Inr s0" and "window_size vc = vad_window_size cfg"
    and "vad_window_size cfg < 2 ^ 31"
  shows "\<exists>s ms. run_calls net recog cfg s0 (map OnAudio chunk_list @ [OnRecognize]) =
                   Some (Inr (s, ms)) \<and>
                 ms \<noteq> [] \<and> last ms = Done \<and> count_list ms Done = 1"
proof -
  from session_new_inv [OF assms] have "session_inv cfg s0" "\<not> max_duration_exceeded s0"
    by simp_all
  from run_calls_done [OF this, of net recog chunk_list] obtain s pre where
    "run_calls net recog cfg s0 (map OnAudio chunk_list @ [OnRecognize]) =
       Some (Inr (s, pre @ [Done]))" "Done \<notin> set pre"
    by blast
  moreover from this(2) have "count_list (pre @ [Done]) Done = 1"
    by (simp add: count_list_0_iff)
  ultimately show ?thesis by auto
qed

theorem done_once_at_the_end_witness:
  "session_new ex_vad_config ex_config = Inr ex_session \<and>
   window_size ex_vad_config = vad_window_size ex_config \<and>
   vad_window_size ex_config < 2 ^ 31 \<and>
   messages_of (run_calls ex_net ex_recognizer ex_config ex_session
                  (map OnAudio [[1, 1, 1, 1, 1], [1, 1]] @ [OnRecognize])) =
     Some [Final ''hi'' 1, Done] \<and>
   last [Final ''hi'' 1, Done] = Done \<and> count_list [Final ''hi'' 1, Done] Done = 1"
proof -
  let ?calls = "map OnAudio [[1, 1, 1, 1, 1], [1, 1]] @ [OnRecognize]"
  from done_once_at_the_end [OF ex_session_new ex_window_size ex_window_range,
      of ex_net ex_recognizer "[[1, 1, 1, 1, 1], [1, 1]]"]
  obtain s ms where
    run: "run_calls ex_net ex_recognizer ex_config ex_session ?calls = Some (Inr (s, ms))"
    and once: "last ms = Done" "count_list ms Done = 1"
    by blast
  have eval: "messages_of (run_calls ex_net ex_recognizer ex_config ex_session ?calls) =
                Some [Final ''hi'' 1, Done]"
    by (simp add: eval_facts messages_of_def split del: if_split)
  with run have "ms = [Final ''hi'' 1, Done]" by (simp add: messages_of_def)
  with once eval ex_session_new ex_window_size ex_window_range show ?thesis by simp
qed

text \<open>
  Claim C5. The flag \<^verbatim>\<open>max_duration_exceeded_\<close> is set by the auto-finalize of \<open>on_audio\<close>
  and nowhere else. While it is set, \<open>on_audio\<close> returns an empty slice and leaves the
  session as it was (the message buffer, already handed out, is cleared); this repeats for
  any number of chunks; and the \<open>on_recognize\<close> that follows returns an empty slice too and
  only clears the flag.
\<close>

theorem exceeded_calls_change_nothing:
  assumes "max_duration_exceeded s"
  shows "on_audio net recog cfg s chunk = Some (Inr (s\<lparr>out_messages := []\<rparr>)) \<and>
         on_recognize net recog cfg s =
           Inr (s\<lparr>out_messages := [], max_duration_exceeded := False\<rparr>) \<and>
         run_calls net recog cfg s (map OnAudio chunk_list @ [OnRecognize]) =
           Some (Inr (s\<lparr>out_messages := [], max_duration_exceeded := False\<rparr>, []))"
  using assms by (simp add: on_audio_exceeded on_recognize_exceeded run_calls_exceeded)

theorem exceeded_calls_change_nothing_witness:
  "on_audio ex_net ex_recognizer ex_config ex_session [1, 1, 1, 1, 1] =
     Some (Inr ex_exceeded_session) \<and>
   max_duration_exceeded ex_exceeded_session \<and>
   on_audio ex_net ex_recognizer ex_config ex_exceeded_session [1, 1] =
     Some (Inr (ex_exceeded_session\<lparr>out_messages := []\<rparr>)) \<and>
   on_recognize ex_net ex_recognizer ex_config ex_exceeded_session =
     Inr (ex_exceeded_session\<lparr>out_messages := [], max_duration_exceeded := False\<rparr>) \<and>
   run_calls ex_net ex_recognizer ex_config ex_exceeded_session
       (map OnAudio [[1, 1], [0]] @ [OnRecognize]) =
     Some (Inr (ex_exceeded_session\<lparr>out_messages := [], max_duration_exceeded := False\<rparr>, []))"
proof -
  have h: "max_duration_exceeded ex_exceeded_session"
    by (simp add: ex_exceeded_session_def)
  from exceeded_calls_change_nothing
         [OF h, of ex_net ex_recognizer ex_config "[1, 1]" "[[1, 1], [0]]"] h ex_auto_finalize
  show ?thesis by simp
qed

text \<open>
  Claim C8. A second \<open>on_reset\<close> right after a first changes nothing in the session:
  pending samples, detector, counters and flags are as the first call left them, and the
  metrics singleton sees no further call, so no second \<^verbatim>\<open>session_ended\<close>. \<open>on_reset\<close>
  returns no messages. (The start time stamp, which every reset reads from the clock, is
  not part of the modelled state.)
\<close>

theorem on_reset_twice:
  "on_reset (on_reset s) = on_reset s \<and>
   metrics (on_reset (on_reset s)) = metrics (on_reset s) \<and>
   returned OnReset (on_reset (on_reset s)) = []"
  by (simp add: on_reset_def reset_session_def reset_def record_metric_def Let_def returned_def)

section \<open>The WebSocket controller: one sample-rate announcement per connection\<close>

lemma process_ratio:
  "process lib r input = Inl (e, r') \<Longrightarrow> ratio r' = ratio r"
  "process lib r input = Inr (r', out) \<Longrightarrow> ratio r' = ratio r"
  by (auto simp: process_def Let_def split: if_splits)

lemma resampler_flush_ratio:
  "resampler_flush lib r = Inl (e, r') \<Longrightarrow> ratio r' = ratio r"
  "resampler_flush lib r = Inr (r', out) \<Longrightarrow> ratio r' = ratio r"
  by (auto simp: resampler_flush_def Let_def split: if_splits)

lemma caught_keeps:
  "sample_rate_received (caught e c) = sample_rate_received c"
  "resampler (caught e c) = resampler c"
  by (simp_all add: caught_def)

lemma send_all_keeps:
  "sample_rate_received (send_all rs c) = sample_rate_received c"
  "resampler (send_all rs c) = resampler c"
  by (simp_all add: send_all_def)

lemma audio_to_session_keeps:
  assumes "audio_to_session env c buf = Some c'"
  shows "sample_rate_received c' = sample_rate_received c \<and> resampler c' = resampler c"
  using assms
  by (auto simp: audio_to_session_def caught_keeps send_all_keeps
      split: option.splits sum.splits prod.splits)

lemma recognize_to_session_keeps:
  "sample_rate_received (recognize_to_session env c) = sample_rate_received c \<and>
   resampler (recognize_to_session env c) = resampler c"
  by (auto simp: recognize_to_session_def caught_keeps send_all_keeps
      split: sum.splits prod.splits)

lemma handle_binary_keeps:
  assumes "handle_binary env c msg = Some c'"
  shows "sample_rate_received c' = sample_rate_received c \<and> resampler_ratio c' = resampler_ratio c"
proof (cases "length msg > max_ws_message_bytes (env_config env) \<or> length msg < 4 \<or> length msg mod 4 \<noteq> 0")
  case True
  then show ?thesis using assms by (auto simp: handle_binary_def resampler_ratio_def split: if_splits)
next
  case False
  define c1 where "c1 = c\<lparr>audio_buf := floats_of_bytes (env_float env) (length msg div 4) msg\<rparr>"
  have c1: "sample_rate_received c1 = sample_rate_received c" "resampler c1 = resampler c"
    by (simp_all add: c1_def)
  have eq: "handle_binary env c msg =
        (case resampler c1 of
             Some r \<Rightarrow>
               (case process (env_samplerate env) r (audio_buf c1) of
                  Inl (e, r1) \<Rightarrow> Some (caught e (c1\<lparr>resampler := Some r1\<rparr>))
                | Inr (r1, resampled) \<Rightarrow>
                    audio_to_session env (c1\<lparr>resampler := Some r1\<rparr>) resampled)
           | None \<Rightarrow> audio_to_session env c1 (audio_buf c1))"
    using False unfolding handle_binary_def Let_def c1_def by simp
  show ?thesis
  proof (cases "resampler c1")
    case None
    with assms eq have "audio_to_session env c1 (audio_buf c1) = Some c'" by simp
    from audio_to_session_keeps [OF this] c1 show ?thesis by (simp add: resampler_ratio_def)
  next
    case (Some r)
    then have rc: "resampler c = Some r" using c1(2) by simp
    show ?thesis
    proof (cases "process (env_samplerate env) r (audio_buf c1)")
      case (Inl a)
      then obtain e r1 where a: "process (env_samplerate env) r (audio_buf c1) = Inl (e, r1)"
        by (cases a) auto
      with assms eq Some have "c' = caught e (c1\<lparr>resampler := Some r1\<rparr>)" by simp
      then show ?thesis using process_ratio(1) [OF a] c1(1) rc
        by (simp add: caught_keeps resampler_ratio_def)
    next
      case (Inr b)
      then obtain r1 out where b: "process (env_samplerate env) r (audio_buf c1) = Inr (r1, out)"
        by (cases b) auto
      with assms eq Some have "audio_to_session env (c1\<lparr>resampler := Some r1\<rparr>) out = Some c'"
        by simp
      from audio_to_session_keeps [OF this] process_ratio(2) [OF b] c1(1) rc
      show ?thesis by (simp add: resampler_ratio_def)
    qed
  qed
qed


lemma handle_command_keeps:
  assumes "handle_command env c msg = Some c'"
  shows "sample_rate_received c' = sample_rate_received c \<and> resampler_ratio c' = resampler_ratio c"
proof (cases "resampler c")
  case None
  then show ?thesis using assms recognize_to_session_keeps [of env c]
    by (auto simp: handle_command_def Let_def resampler_ratio_def split: if_splits)
next
  case (Some r)
  show ?thesis
  proof (cases "resampler_flush (env_samplerate env) r")
    case (Inl a)
    then obtain e r1 where a: "resampler_flush (env_samplerate env) r = Inl (e, r1)"
      by (cases a) auto
    from resampler_flush_ratio(1) [OF a] assms Some a show ?thesis
      by (auto simp: handle_command_def Let_def resampler_ratio_def caught_keeps split: if_splits)
  next
    case (Inr b)
    then obtain r1 tail where b: "resampler_flush (env_samplerate env) r = Inr (r1, tail)"
      by (cases b) auto
    note rr = resampler_flush_ratio(2) [OF b]
    define c1 where "c1 = c\<lparr>resampler := Some r1\<rparr>"
    have c1: "sample_rate_received c1 = sample_rate_received c" "resampler_ratio c1 = resampler_ratio c"
      using rr Some by (simp_all add: c1_def resampler_ratio_def)
    show ?thesis
    proof (cases "msg = ''RECOGNIZE''")
      case True
      show ?thesis
      proof (cases "tail = []")
        case True
        with \<open>msg = ''RECOGNIZE''\<close> assms Some b have "c' = recognize_to_session env c1"
          by (simp add: handle_command_def Let_def c1_def)
        then show ?thesis using recognize_to_session_keeps [of env c1] c1
          by (simp add: resampler_ratio_def)
      next
        case False
        with \<open>msg = ''RECOGNIZE''\<close> assms Some b have eq:
          "(case on_audio (env_net env) (env_recognizer env) (env_config env)
                               (ctx_session c1) tail of
                          None \<Rightarrow> None
                        | Some (Inl (e, s)) \<Rightarrow> Some (caught e (c1\<lparr>ctx_session := s\<rparr>))
                        | Some (Inr s) \<Rightarrow>
                            Some (recognize_to_session env
                                    (send_all (current_messages s) (c1\<lparr>ctx_session := s\<rparr>)))) = Some c'"
          unfolding handle_command_def Let_def c1_def by simp
        then obtain res where res: "on_audio (env_net env) (env_recognizer env) (env_config env)
                               (ctx_session c1) tail = Some res"
          by (cases "on_audio (env_net env) (env_recognizer env) (env_config env)
                               (ctx_session c1) tail") auto
        show ?thesis
        proof (cases res)
          case (Inl a)
          then obtain e s where "res = Inl (e, s)" by (cases a) auto
          with eq res have "c' = caught e (c1\<lparr>ctx_session := s\<rparr>)" by simp
          then show ?thesis using c1 by (simp add: caught_keeps resampler_ratio_def)
        next
          case (Inr s)
          with eq res have "c' = recognize_to_session env
                                    (send_all (current_messages s) (c1\<lparr>ctx_session := s\<rparr>))"
            by simp
          then show ?thesis
            using recognize_to_session_keeps
                    [of env "send_all (current_messages s) (c1\<lparr>ctx_session := s\<rparr>)"] c1
            by (simp add: send_all_keeps resampler_ratio_def)
        qed
      qed
    next
      case False
      then show ?thesis using assms Some b rr
        by (auto simp: handle_command_def Let_def resampler_ratio_def split: if_splits)
    qed
  qed
qed

lemma handle_text_received:
  "sample_rate_received c \<Longrightarrow> handle_text env c msg = handle_command env c msg"
  by (simp add: handle_text_def)

lemma recognize_to_session_json:
  "recognize_to_session (env\<lparr>env_json := j\<rparr>) c = recognize_to_session env c"
  by (simp add: recognize_to_session_def)

lemma audio_to_session_json:
  "audio_to_session (env\<lparr>env_json := j\<rparr>) c buf = audio_to_session env c buf"
  by (simp add: audio_to_session_def)

lemma handle_command_json:
  "handle_command (env\<lparr>env_json := j\<rparr>) c msg = handle_command env c msg"
  by (simp add: handle_command_def recognize_to_session_json Let_def
      cong: option.case_cong sum.case_cong prod.case_cong if_cong)

lemma handle_binary_json:
  "handle_binary (env\<lparr>env_json := j\<rparr>) c msg = handle_binary env c msg"
  by (simp add: handle_binary_def audio_to_session_json Let_def
      cong: option.case_cong sum.case_cong prod.case_cong if_cong)

lemma handleNewMessage_received:
  assumes "sample_rate_received c"
  shows "handleNewMessage (env\<lparr>env_json := j\<rparr>) c m = handleNewMessage env c m"
    and "handleNewMessage env c m = Some c' \<Longrightarrow>
         sample_rate_received c' \<and> resampler_ratio c' = resampler_ratio c"
proof -
  show "handleNewMessage (env\<lparr>env_json := j\<rparr>) c m = handleNewMessage env c m"
    using assms
    by (cases "snd m")
       (simp_all add: handleNewMessage_def handle_text_received handle_command_json
          handle_binary_json)
  assume r: "handleNewMessage env c m = Some c'"
  show "sample_rate_received c' \<and> resampler_ratio c' = resampler_ratio c"
  proof (cases "snd m")
    case Text
    with r assms have "handle_command env c (fst m) = Some c'"
      by (simp add: handleNewMessage_def handle_text_received)
    from handle_command_keeps [OF this] assms show ?thesis by simp
  next
    case Binary
    with r have "handle_binary env c (fst m) = Some c'" by (simp add: handleNewMessage_def)
    from handle_binary_keeps [OF this] assms show ?thesis by simp
  qed (use r assms in \<open>simp_all add: handleNewMessage_def\<close>)
qed

lemma run_messages_received:
  "sample_rate_received c \<Longrightarrow> run_messages env c ms = Some c' \<Longrightarrow>
   sample_rate_received c' \<and> resampler_ratio c' = resampler_ratio c \<and>
   run_messages (env\<lparr>env_json := j\<rparr>) c ms = Some c'"
proof (induction ms arbitrary: c)
  case Nil
  then show ?case by simp
next
  case (Cons m ms)
  from Cons.prems(2) obtain c1 where c1: "handleNewMessage env c m = Some c1"
    and rest: "run_messages env c1 ms = Some c'"
    by (cases "handleNewMessage env c m") auto
  from handleNewMessage_received(2) [OF Cons.prems(1) c1]
  have k: "sample_rate_received c1" "resampler_ratio c1 = resampler_ratio c" by simp_all
  from Cons.IH [OF k(1) rest] k(2) c1 handleNewMessage_received(1) [OF Cons.prems(1), where env = env and j = j and m = m]
  show ?case by simp
qed

lemma on_audio_total:
  assumes "session_inv cfg s"
  shows "\<exists>s'. on_audio net recog cfg s chunk = Some (Inr s') \<and> session_inv cfg s'"
  using session_step_returns [OF assms, of net recog "OnAudio chunk"]
  by (simp add: session_step_def)

lemma on_recognize_total:
  assumes "session_inv cfg s"
  shows "\<exists>s'. on_recognize net recog cfg s = Inr s' \<and> session_inv cfg s'"
  using session_step_returns [OF assms, of net recog OnRecognize]
  by (simp add: session_step_def)

lemma caught_session: "ctx_session (caught e c) = ctx_session c"
  by (simp add: caught_def)

lemma send_all_session: "ctx_session (send_all rs c) = ctx_session c"
  by (simp add: send_all_def)

lemma audio_to_session_returns:
  assumes "session_inv (env_config env) (ctx_session c)"
  shows "\<exists>c'. audio_to_session env c buf = Some c' \<and>
              session_inv (env_config env) (ctx_session c')"
proof -
  from on_audio_total [OF assms, of "env_net env" "env_recognizer env" buf] obtain s' where
    "on_audio (env_net env) (env_recognizer env) (env_config env) (ctx_session c) buf
       = Some (Inr s')" "session_inv (env_config env) s'"
    by blast
  then show ?thesis by (simp add: audio_to_session_def send_all_session)
qed

lemma recognize_to_session_inv:
  assumes "session_inv (env_config env) (ctx_session c)"
  shows "session_inv (env_config env) (ctx_session (recognize_to_session env c))"
proof -
  from on_recognize_total [OF assms, of "env_net env" "env_recognizer env"] obtain s' where
    "on_recognize (env_net env) (env_recognizer env) (env_config env) (ctx_session c) = Inr s'"
    "session_inv (env_config env) s'"
    by blast
  then show ?thesis by (simp add: recognize_to_session_def send_all_session)
qed

lemma handle_binary_returns:
  assumes "session_inv (env_config env) (ctx_session c)"
  shows "\<exists>c'. handle_binary env c msg = Some c' \<and>
              session_inv (env_config env) (ctx_session c')"
proof (cases "length msg > max_ws_message_bytes (env_config env) \<or> length msg < 4 \<or>
              length msg mod 4 \<noteq> 0")
  case True
  then show ?thesis using assms by (auto simp: handle_binary_def)
next
  case False
  define c1 where "c1 = c\<lparr>audio_buf := floats_of_bytes (env_float env) (length msg div 4) msg\<rparr>"
  have inv1: "session_inv (env_config env) (ctx_session c1)"
    "\<And>r1. session_inv (env_config env) (ctx_session (c1\<lparr>resampler := Some r1\<rparr>))"
    using assms by (simp_all add: c1_def)
  have eq: "handle_binary env c msg =
        (case resampler c1 of
             Some r \<Rightarrow>
               (case process (env_samplerate env) r (audio_buf c1) of
                  Inl (e, r1) \<Rightarrow> Some (caught e (c1\<lparr>resampler := Some r1\<rparr>))
                | Inr (r1, resampled) \<Rightarrow>
                    audio_to_session env (c1\<lparr>resampler := Some r1\<rparr>) resampled)
           | None \<Rightarrow> audio_to_session env c1 (audio_buf c1))"
    using False unfolding handle_binary_def Let_def c1_def by simp
  show ?thesis
  proof (cases "resampler c1")
    case None
    then show ?thesis using eq audio_to_session_returns [OF inv1(1), of "audio_buf c1"] by simp
  next
    case (Some r)
    show ?thesis
    proof (cases "process (env_samplerate env) r (audio_buf c1)")
      case (Inl a)
      then obtain e r1 where "process (env_samplerate env) r (audio_buf c1) = Inl (e, r1)"
        by (cases a) auto
      then show ?thesis using eq Some inv1(2) [of r1] by (simp add: caught_session)
    next
      case (Inr b)
      then obtain r1 out where "process (env_samplerate env) r (audio_buf c1) = Inr (r1, out)"
        by (cases b) auto
      then show ?thesis using eq Some audio_to_session_returns [OF inv1(2), of r1 out] by simp
    qed
  qed
qed

lemma handle_command_returns:
  assumes "session_inv (env_config env) (ctx_session c)"
  shows "\<exists>c'. handle_command env c msg = Some c' \<and>
              session_inv (env_config env) (ctx_session c')"
proof -
  have inv_r: "\<And>r1. session_inv (env_config env) (ctx_session (c\<lparr>resampler := Some r1\<rparr>))"
    using assms by simp
  have inv_reset: "session_inv (env_config env) (on_reset (ctx_session c))"
    using assms by (rule on_reset_inv)
  show ?thesis
  proof (cases "msg = ''RECOGNIZE''")
    case rec: True
    show ?thesis
    proof (cases "resampler c")
      case None
      then show ?thesis using rec recognize_to_session_inv [OF assms]
        by (simp add: handle_command_def)
    next
      case (Some r)
      show ?thesis
      proof (cases "resampler_flush (env_samplerate env) r")
        case (Inl a)
        then obtain e r1 where "resampler_flush (env_samplerate env) r = Inl (e, r1)"
          by (cases a) auto
        then show ?thesis using rec Some inv_r [of r1]
          by (simp add: handle_command_def caught_session)
      next
        case (Inr b)
        then obtain r1 tail where b: "resampler_flush (env_samplerate env) r = Inr (r1, tail)"
          by (cases b) auto
        define c1 where "c1 = c\<lparr>resampler := Some r1\<rparr>"
        have inv1: "session_inv (env_config env) (ctx_session c1)"
          using assms by (simp add: c1_def)
        show ?thesis
        proof (cases "tail = []")
          case True
          then show ?thesis using rec Some b recognize_to_session_inv [OF inv1]
            by (simp add: handle_command_def Let_def c1_def)
        next
          case False
          from on_audio_total [OF inv1, of "env_net env" "env_recognizer env" tail] obtain s' where
            s': "on_audio (env_net env) (env_recognizer env) (env_config env) (ctx_session c1) tail
                   = Some (Inr s')" "session_inv (env_config env) s'"
            by blast
          let ?c2 = "send_all (current_messages s') (c1\<lparr>ctx_session := s'\<rparr>)"
          have "session_inv (env_config env) (ctx_session ?c2)"
            using s'(2) by (simp add: send_all_session)
          from recognize_to_session_inv [OF this]
          have "session_inv (env_config env) (ctx_session (recognize_to_session env ?c2))" .
          moreover have "handle_command env c msg = Some (recognize_to_session env ?c2)"
            using rec Some b False s'(1) unfolding handle_command_def Let_def c1_def by simp
          ultimately show ?thesis by simp
        qed
      qed
    qed
  next
    case norec: False
    show ?thesis
    proof (cases "msg = ''RESET''")
      case False
      then show ?thesis using norec assms by (simp add: handle_command_def)
    next
      case True
      show ?thesis
      proof (cases "resampler c")
        case None
        then show ?thesis using True inv_reset by (simp add: handle_command_def Let_def)
      next
        case (Some r)
        show ?thesis
        proof (cases "resampler_flush (env_samplerate env) r")
          case (Inl a)
          then obtain e r1 where "resampler_flush (env_samplerate env) r = Inl (e, r1)"
            by (cases a) auto
          then show ?thesis using True Some inv_reset
            by (simp add: handle_command_def Let_def caught_session)
        next
          case (Inr b)
          then obtain r1 tail where "resampler_flush (env_samplerate env) r = Inr (r1, tail)"
            by (cases b) auto
          then show ?thesis using True Some inv_reset
            by (simp add: handle_command_def Let_def)
        qed
      qed
    qed
  qed
qed

lemma handle_text_returns:
  assumes "session_inv (env_config env) (ctx_session c)"
  shows "\<exists>c'. handle_text env c msg = Some c' \<and>
              session_inv (env_config env) (ctx_session c')"
proof (cases "\<not> sample_rate_received c \<and> msg \<noteq> [] \<and> hd msg = CHR ''{''")
  case False
  then have "handle_text env c msg = handle_command env c msg"
    by (auto simp: handle_text_def)
  then show ?thesis using handle_command_returns [OF assms, of msg] by simp
next
  case True
  show ?thesis
  proof (cases "env_json env msg")
    case JsonException
    with True have "handle_text env c msg = handle_command env c msg"
      by (simp add: handle_text_def)
    then show ?thesis using handle_command_returns [OF assms, of msg] by simp
  next
    case NoSampleRate
    with True have "handle_text env c msg = handle_command env c msg"
      by (simp add: handle_text_def)
    then show ?thesis using handle_command_returns [OF assms, of msg] by simp
  next
    case (SampleRate n)
    then show ?thesis using True assms
      by (cases "stream_resampler_new (env_samplerate env) n (sample_rate (env_config env))")
         (simp_all add: handle_text_def Let_def caught_session)
  qed
qed

lemma handleNewMessage_returns:
  assumes "session_inv (env_config env) (ctx_session c)"
  shows "\<exists>c'. handleNewMessage env c m = Some c' \<and>
              session_inv (env_config env) (ctx_session c')"
  using handle_text_returns [OF assms, of "fst m"] handle_binary_returns [OF assms, of "fst m"]
    assms
  by (cases "snd m") (simp_all add: handleNewMessage_def)

lemma run_messages_returns:
  "session_inv (env_config env) (ctx_session c) \<Longrightarrow>
   \<exists>c'. run_messages env c ms = Some c' \<and> session_inv (env_config env) (ctx_session c')"
proof (induction ms arbitrary: c)
  case Nil
  then show ?case by simp
next
  case (Cons m ms)
  from handleNewMessage_returns [OF Cons.prems, of m] obtain c1 where
    c1: "handleNewMessage env c m = Some c1" "session_inv (env_config env) (ctx_session c1)"
    by blast
  from Cons.IH [OF c1(2)] c1(1) show ?case by simp
qed

lemma handleNewConnection_inv:
  assumes "handleNewConnection env = Inr c" and "vad_window_size (env_config env) < 2 ^ 31"
  shows "session_inv (env_config env) (ctx_session c) \<and> \<not> sample_rate_received c \<and>
         resampler c = None"
proof -
  from assms(1) obtain s where s: "session_new (server_vad_config (env_config env)) (env_config env) = Inr s"
    and c: "c = \<lparr>ctx_session = s, audio_buf = [], close_reason = ''normal'', resampler = None,
               sample_rate_received = False, sent = [], shut_down = None\<rparr>"
    by (auto simp: handleNewConnection_def split: sum.splits)
  have "window_size (server_vad_config (env_config env)) = vad_window_size (env_config env)"
    by (simp add: server_vad_config_def)
  from session_new_inv [OF s this assms(2)] show ?thesis by (simp add: c)
qed

lemma ex_announce_16000_head: "ex_announce_16000 \<noteq> [] \<and> hd ex_announce_16000 = CHR ''{''"
  by (simp add: ex_announce_16000_def)

lemma ex_new_connection: "handleNewConnection ex_env = Inr ex_connection"
  by (simp add: handleNewConnection_def ex_env_def ex_server_vad_config ex_session_new
      ex_connection_def)

lemma ex_connection_inv: "session_inv (env_config ex_env) (ctx_session ex_connection)"
proof -
  have "vad_window_size (env_config ex_env) < 2 ^ 31"
    by (simp add: ex_env_def ex_config_def)
  from handleNewConnection_inv [OF ex_new_connection this] show ?thesis by simp
qed

text \<open>
  Before the first valid announcement: a message that is not a valid announcement (a
  command, audio, a text the JSON library rejects, an announcement with a rate out of
  range) is handled to its end, leaves the flag unset and creates no resampler.
\<close>

lemma resampler_ratio_None: "resampler_ratio c = None \<longleftrightarrow> resampler c = None"
  by (simp add: resampler_ratio_def)

lemma handle_text_not_valid:
  assumes "\<not> valid_announcement env (msg, Text)"
  shows "handle_text env c msg = Some c \<or> handle_text env c msg = handle_command env c msg"
  using assms
  by (cases "env_json env msg") (auto simp: handle_text_def valid_announcement_def)

lemma handleNewMessage_not_valid:
  assumes inv: "session_inv (env_config env) (ctx_session c)"
    and fresh: "\<not> sample_rate_received c"
    and nv: "\<not> valid_announcement env m"
  shows "\<exists>c'. handleNewMessage env c m = Some c' \<and>
              session_inv (env_config env) (ctx_session c') \<and>
              \<not> sample_rate_received c' \<and> resampler_ratio c' = resampler_ratio c"
proof -
  from handleNewMessage_returns [OF inv, of m] obtain c' where
    step: "handleNewMessage env c m = Some c'"
    and inv': "session_inv (env_config env) (ctx_session c')"
    by blast
  have "\<not> sample_rate_received c' \<and> resampler_ratio c' = resampler_ratio c"
  proof (cases "snd m")
    case Text
    then have m: "m = (fst m, Text)" by (cases m) simp
    from step Text have t: "handle_text env c (fst m) = Some c'"
      by (simp add: handleNewMessage_def)
    from nv m have "\<not> valid_announcement env (fst m, Text)" by simp
    from handle_text_not_valid [OF this, of c] t
    have "c' = c \<or> handle_command env c (fst m) = Some c'" by auto
    then show ?thesis using handle_command_keeps [of env c "fst m" c'] fresh by auto
  next
    case Binary
    with step have "handle_binary env c (fst m) = Some c'" by (simp add: handleNewMessage_def)
    from handle_binary_keeps [OF this] fresh show ?thesis by simp
  qed (use step fresh in \<open>simp_all add: handleNewMessage_def\<close>)
  with step inv' show ?thesis by simp
qed

lemma run_messages_not_valid:
  "session_inv (env_config env) (ctx_session c) \<Longrightarrow> \<not> sample_rate_received c \<Longrightarrow>
   \<forall>m \<in> set ms. \<not> valid_announcement env m \<Longrightarrow>
   \<exists>c'. run_messages env c ms = Some c' \<and> session_inv (env_config env) (ctx_session c') \<and>
        \<not> sample_rate_received c' \<and> resampler_ratio c' = resampler_ratio c"
proof (induction ms arbitrary: c)
  case Nil
  then show ?case by simp
next
  case (Cons m ms)
  from Cons.prems(3) have nv: "\<not> valid_announcement env m"
    and rest: "\<forall>m \<in> set ms. \<not> valid_announcement env m"
    by simp_all
  from handleNewMessage_not_valid [OF Cons.prems(1) Cons.prems(2) nv] obtain c1 where
    c1: "handleNewMessage env c m = Some c1" "session_inv (env_config env) (ctx_session c1)"
      "\<not> sample_rate_received c1" "resampler_ratio c1 = resampler_ratio c"
    by blast
  from Cons.IH [OF c1(2) c1(3) rest] c1(1) c1(4) show ?case by simp
qed

text \<open>
  Claim C10. A connection starts, in \<open>handleNewConnection\<close>, with its session in order, the
  flag \<^verbatim>\<open>sample_rate_received\<close> unset and no resampler. From such a state (\<open>c0\<close>):

  \<^item> Messages none of which is a valid announcement are handled to their end and leave the
    flag unset and the resampler as it was: absent, on a connection that started without
    one. An announcement with a rate out of range, in particular, takes no effect.
  \<^item> The first valid announcement then sets the flag, and creates the resampler when its
    rate differs from the model's.
  \<^item> From then on, whatever messages follow, every one of them is handled to its end and:
    the flag stays set, the connection's resampler keeps its ratio (none is created, none
    replaced), a text message is handled as a command, and the outcome does not depend on
    what the JSON library would find in any message, so a later announcement is never
    parsed.
\<close>

theorem first_announcement_only:
  assumes inv: "session_inv (env_config env) (ctx_session c0)"
    and fresh: "\<not> sample_rate_received c0"
    and before: "\<forall>m \<in> set before. \<not> valid_announcement env m"
    and brace: "msg \<noteq> []" "hd msg = CHR ''{''"
    and found: "env_json env msg = SampleRate n"
    and range: "8000 \<le> n" "n \<le> 192000"
  shows "(\<forall>c'. handleNewConnection env = Inr c' \<and> vad_window_size (env_config env) < 2 ^ 31 \<longrightarrow>
                session_inv (env_config env) (ctx_session c') \<and> \<not> sample_rate_received c' \<and>
                resampler c' = None) \<and>
         (\<exists>c c1 c2.
           run_messages env c0 before = Some c \<and> \<not> sample_rate_received c \<and>
           resampler_ratio c = resampler_ratio c0 \<and>
           (resampler c0 = None \<longrightarrow> resampler c = None) \<and>
           handleNewMessage env c (msg, Text) = Some c1 \<and> sample_rate_received c1 \<and>
           resampler c1 =
             (if n = sample_rate (env_config env) then resampler c
              else case stream_resampler_new (env_samplerate env) n (sample_rate (env_config env)) of
                     Inl e \<Rightarrow> resampler c
                   | Inr r \<Rightarrow> Some r) \<and>
           run_messages env c1 ms = Some c2 \<and>
           sample_rate_received c2 \<and> resampler_ratio c2 = resampler_ratio c1 \<and>
           (\<forall>c' m. sample_rate_received c' \<longrightarrow>
                   handleNewMessage env c' (m, Text) = handle_command env c' m) \<and>
           (\<forall>j. run_messages (env\<lparr>env_json := j\<rparr>) c1 ms = Some c2))"
proof -
  have start: "\<forall>c'. handleNewConnection env = Inr c' \<and>
                     vad_window_size (env_config env) < 2 ^ 31 \<longrightarrow>
                session_inv (env_config env) (ctx_session c') \<and> \<not> sample_rate_received c' \<and>
                resampler c' = None"
    using handleNewConnection_inv [of env] by blast
  from run_messages_not_valid [OF inv fresh before] obtain c where
    pre: "run_messages env c0 before = Some c"
    and inv_c: "session_inv (env_config env) (ctx_session c)"
    and fresh_c: "\<not> sample_rate_received c"
    and ratio_c: "resampler_ratio c = resampler_ratio c0"
    by blast
  from ratio_c have none_c: "resampler c0 = None \<longrightarrow> resampler c = None"
    using resampler_ratio_None [of c] resampler_ratio_None [of c0] by simp
  define c1 where "c1 =
     (if n = sample_rate (env_config env) then c\<lparr>sample_rate_received := True\<rparr>
      else case stream_resampler_new (env_samplerate env) n (sample_rate (env_config env)) of
             Inl e \<Rightarrow> caught e (c\<lparr>sample_rate_received := True\<rparr>)
           | Inr r \<Rightarrow> c\<lparr>sample_rate_received := True, resampler := Some r\<rparr>)"
  have step: "handleNewMessage env c (msg, Text) = Some c1"
    using fresh_c brace found range
    by (simp add: handleNewMessage_def handle_text_def Let_def c1_def split: sum.splits)
  have flag: "sample_rate_received c1"
    by (simp add: c1_def caught_keeps split: sum.splits)
  have res: "resampler c1 =
             (if n = sample_rate (env_config env) then resampler c
              else case stream_resampler_new (env_samplerate env) n (sample_rate (env_config env)) of
                     Inl e \<Rightarrow> resampler c
                   | Inr r \<Rightarrow> Some r)"
    by (simp add: c1_def caught_keeps split: sum.splits)
  have "session_inv (env_config env) (ctx_session c1)"
    using inv_c by (simp add: c1_def caught_session split: sum.splits)
  from run_messages_returns [OF this, of ms] obtain c2 where
    rest: "run_messages env c1 ms = Some c2"
    by blast
  from run_messages_received [OF flag rest]
  have later: "sample_rate_received c2" "resampler_ratio c2 = resampler_ratio c1"
    "\<And>j. run_messages (env\<lparr>env_json := j\<rparr>) c1 ms = Some c2"
    by simp_all
  have command: "\<forall>c' m. sample_rate_received c' \<longrightarrow>
                   handleNewMessage env c' (m, Text) = handle_command env c' m"
    by (simp add: handleNewMessage_def handle_text_received)
  have any_json: "\<forall>j. run_messages (env\<lparr>env_json := j\<rparr>) c1 ms = Some c2"
    by (intro allI) (rule later(3))
  from pre fresh_c ratio_c none_c step flag res rest later(1,2) command any_json
  have "\<exists>c c1 c2.
           run_messages env c0 before = Some c \<and> \<not> sample_rate_received c \<and>
           resampler_ratio c = resampler_ratio c0 \<and>
           (resampler c0 = None \<longrightarrow> resampler c = None) \<and>
           handleNewMessage env c (msg, Text) = Some c1 \<and> sample_rate_received c1 \<and>
           resampler c1 =
             (if n = sample_rate (env_config env) then resampler c
              else case stream_resampler_new (env_samplerate env) n (sample_rate (env_config env)) of
                     Inl e \<Rightarrow> resampler c
                   | Inr r \<Rightarrow> Some r) \<and>
           run_messages env c1 ms = Some c2 \<and>
           sample_rate_received c2 \<and> resampler_ratio c2 = resampler_ratio c1 \<and>
           (\<forall>c' m. sample_rate_received c' \<longrightarrow>
                   handleNewMessage env c' (m, Text) = handle_command env c' m) \<and>
           (\<forall>j. run_messages (env\<lparr>env_json := j\<rparr>) c1 ms = Some c2)"
    by (intro exI conjI) assumption+
  with start show ?thesis by (rule conjI)
qed

text \<open>
  On the small connection, fresh from \<open>handleNewConnection\<close>: an announcement of 100 Hz and
  a \<^verbatim>\<open>RESET\<close> leave it as it was, without flag and resampler; the announcement of 16 kHz
  sets the flag and creates the resampler; the announcement of 44.1 kHz that follows is
  taken as an unknown command, and the \<^verbatim>\<open>RESET\<close> after it resets the one resampler.
\<close>

theorem first_announcement_only_witness:
  "handleNewConnection ex_env = Inr ex_connection \<and>
   vad_window_size (env_config ex_env) < 2 ^ 31 \<and>
   session_inv (env_config ex_env) (ctx_session ex_connection) \<and>
   \<not> sample_rate_received ex_connection \<and> resampler ex_connection = None \<and>
   env_json ex_env ex_announce_100 = SampleRate 100 \<and>
   \<not> valid_announcement ex_env (ex_announce_100, Text) \<and>
   \<not> valid_announcement ex_env (''RESET'', Text) \<and>
   run_messages ex_env ex_connection [(ex_announce_100, Text), (''RESET'', Text)] =
     Some ex_connection \<and>
   ex_announce_16000 \<noteq> [] \<and> hd ex_announce_16000 = CHR ''{'' \<and>
   env_json ex_env ex_announce_16000 = SampleRate 16000 \<and>
   handleNewMessage ex_env ex_connection (ex_announce_16000, Text) =
     Some (ex_connection
             \<lparr>sample_rate_received := True,
               resampler := Some \<lparr>src_state = (), ratio = 1 / 4000, output_buf = []\<rparr>\<rparr>) \<and>
   run_messages ex_env
       (ex_connection
          \<lparr>sample_rate_received := True,
            resampler := Some \<lparr>src_state = (), ratio = 1 / 4000, output_buf = []\<rparr>\<rparr>)
       [(ex_announce_44100, Text), (''RESET'', Text)] =
     Some (ex_connection
             \<lparr>sample_rate_received := True,
               resampler := Some \<lparr>src_state = (), ratio = 1 / 4000, output_buf = replicate 64 0\<rparr>\<rparr>) \<and>
   resampler_ratio
     (ex_connection
        \<lparr>sample_rate_received := True,
          resampler := Some \<lparr>src_state = (), ratio = 1 / 4000, output_buf = replicate 64 0\<rparr>\<rparr>) =
     Some (1 / 4000)"
proof -
  let ?before = "[(ex_announce_100, Text), (''RESET'', Text)]"
  let ?ms = "[(ex_announce_44100, Text), (''RESET'', Text)]"
  let ?c1 = "ex_connection
             \<lparr>sample_rate_received := True,
               resampler := Some \<lparr>src_state = (), ratio = 1 / 4000, output_buf = []\<rparr>\<rparr>"
  let ?c2 = "ex_connection
             \<lparr>sample_rate_received := True,
               resampler := Some \<lparr>src_state = (), ratio = 1 / 4000, output_buf = replicate 64 0\<rparr>\<rparr>"
  have window: "vad_window_size (env_config ex_env) < 2 ^ 31"
    by (simp add: ex_env_def ex_config_def)
  have fresh: "\<not> sample_rate_received ex_connection" by (simp add: ex_connection_def)
  have none: "resampler ex_connection = None" by (simp add: ex_connection_def)
  have low: "env_json ex_env ex_announce_100 = SampleRate 100"
    by (simp add: ex_env_def ex_json_def ex_announce_100_def ex_announce_16000_def
        ex_announce_44100_def)
  have nv1: "\<not> valid_announcement ex_env (ex_announce_100, Text)"
    by (simp add: valid_announcement_def low)
  have nv2: "\<not> valid_announcement ex_env (''RESET'', Text)"
    by (simp add: valid_announcement_def)
  have before: "\<forall>m \<in> set ?before. \<not> valid_announcement ex_env m"
    using nv1 nv2 by simp
  have found: "env_json ex_env ex_announce_16000 = SampleRate 16000"
    by (simp add: ex_env_def ex_json_def)
  have new: "stream_resampler_new ex_samplerate 16000 4 =
               Inr \<lparr>src_state = (), ratio = 1 / 4000, output_buf = []\<rparr>"
    by (simp add: stream_resampler_new_def ex_samplerate_def)
  have reset_same: "on_reset ex_session = ex_session"
    by (simp add: on_reset_def ex_session_def reset_session_def reset_def ex_vad_def
        ex_vad_config_def Let_def)
  have ignored: "handleNewMessage ex_env ex_connection (ex_announce_100, Text) =
                   Some ex_connection"
    using fresh low by (simp add: handleNewMessage_def handle_text_def ex_announce_100_def)
  have early_reset: "handleNewMessage ex_env ex_connection (''RESET'', Text) =
                       Some ex_connection"
    by (simp add: handleNewMessage_def handle_text_def handle_command_def Let_def)
       (simp add: ex_connection_def reset_same)
  have pre: "run_messages ex_env ex_connection ?before = Some ex_connection"
    by (simp add: ignored early_reset)
  have first: "handleNewMessage ex_env ex_connection (ex_announce_16000, Text) = Some ?c1"
    using fresh found ex_announce_16000_head new
    by (simp add: handleNewMessage_def handle_text_def Let_def)
       (simp add: ex_env_def ex_config_def new)
  have second: "handleNewMessage ex_env ?c1 (ex_announce_44100, Text) = Some ?c1"
    by (simp add: handleNewMessage_def handle_text_def handle_command_def
        ex_announce_44100_def)
  have third: "handleNewMessage ex_env ?c1 (''RESET'', Text) = Some ?c2"
    by (simp add: handleNewMessage_def handle_text_def handle_command_def Let_def
        resampler_flush_def resize_def write_front_def)
       (simp add: ex_env_def ex_samplerate_def ex_connection_def reset_same)
  have run: "run_messages ex_env ?c1 ?ms = Some ?c2"
    by (simp add: second third)
  have lo: "(8000 :: int) \<le> 16000" and hi: "(16000 :: int) \<le> 192000" by simp_all
  note inst = first_announcement_only
         [where ms = ?ms, OF ex_connection_inv fresh before
            conjunct1 [OF ex_announce_16000_head] conjunct2 [OF ex_announce_16000_head]
            found lo hi]
  from conjunct1 [OF inst, rule_format, of ex_connection] ex_new_connection window
  have started: "session_inv (env_config ex_env) (ctx_session ex_connection) \<and>
                 \<not> sample_rate_received ex_connection \<and> resampler ex_connection = None"
    by simp
  from conjunct2 [OF inst] obtain c c1 c2 where
    "run_messages ex_env ex_connection ?before = Some c"
    "resampler ex_connection = None \<longrightarrow> resampler c = None"
    "handleNewMessage ex_env c (ex_announce_16000, Text) = Some c1"
    "run_messages ex_env c1 ?ms = Some c2" "resampler_ratio c2 = resampler_ratio c1"
    by (elim exE conjE) (rule that, assumption+)
  with pre first run have "resampler_ratio ?c2 = resampler_ratio ?c1" by simp
  then have "resampler_ratio ?c2 = Some (1 / 4000)" by (simp add: resampler_ratio_def)
  with first run pre started low nv1 nv2 found ex_announce_16000_head ex_new_connection window
  show ?thesis by simp
qed

end
